theory Spec2Isabelle
  imports Main "HOL-Library.AList" "HOL-Library.Word"
begin

section \<open>Python values, exceptions and dictionaries\<close>

text \<open>
  The client is one Python class, \<open>Redfin\<close>, in \<open>pyredfin.py\<close>. Every exception the
  modelled code can meet is a value of \<open>py_error\<close>; a computation that may raise returns
  \<open>py_error + 'a\<close> with \<open>Inl\<close> for the exception. \<open>HTTPError\<close> carries the status code of
  the response that \<open>raise_for_status\<close> rejected.
\<close>

datatype py_error =
    HTTPError nat
  | ConnectionError
  | JSONDecodeError
  | StopIteration
  | KeyError
  | IndexError
  | TypeError
  | AttributeError
  | ValueError

text \<open>
  Arguments annotated \<open>Union[str, int]\<close>, and the values of query parameters and headers,
  are strings, integers or booleans. A Python string is modelled by a HOL \<open>string\<close>, one
  \<open>char\<close> for each character of the Python string (the characters below 256).
\<close>

datatype scalar = PStr string | PInt int | PBool bool

text \<open>
  A Python \<open>dict\<close> keeps its keys in insertion order: an association list, where
  \<open>d[k] = v\<close> is \<open>AList.update k v d\<close> (the value is replaced in place when the key is
  there, the pair is appended otherwise) and a lookup is \<open>map_of d k\<close>.
\<close>

type_synonym pydict = "(string \<times> scalar) list"

text \<open>The display \<open>{**base, **extra}\<close>: the pairs of \<open>extra\<close> are stored into \<open>base\<close> in order.\<close>

definition dict_unpack :: "('k \<times> 'v) list \<Rightarrow> ('k \<times> 'v) list \<Rightarrow> ('k \<times> 'v) list" where
  "dict_unpack base extra = fold (\<lambda>(k, v). AList.update k v) extra base"

text \<open>\<open>str(x)\<close>, which an f-string applies to each replacement field.\<close>

definition digit_char :: "nat \<Rightarrow> char" where
  "digit_char n = ''0123456789'' ! n"

fun digits :: "nat \<Rightarrow> string" where
  "digits n = (if n < 10 then [digit_char n] else digits (n div 10) @ [digit_char (n mod 10)])"

declare digits.simps [simp del]

definition str_int :: "int \<Rightarrow> string" where
  "str_int i = (if i < 0 then CHR ''-'' # digits (nat (- i)) else digits (nat i))"

fun py_str :: "scalar \<Rightarrow> string" where
  "py_str (PStr s) = s"
| "py_str (PInt i) = str_int i"
| "py_str (PBool b) = (if b then ''True'' else ''False'')"

text \<open>
  The values \<open>json.loads\<close> builds: \<open>None\<close>, \<open>bool\<close>, \<open>int\<close>, \<open>float\<close> (the 64 bits of the
  double), \<open>str\<close>, \<open>list\<close> and \<open>dict\<close> with string keys.
\<close>

datatype json =
    JNull
  | JBool bool
  | JInt int
  | JFloat "64 word"
  | JStr string
  | JArr "json list"
  | JObj "(string \<times> json) list"

text \<open>
  Subscription \<open>obj[key]\<close> with a string key and with an index that is not negative, and
  \<open>len(obj)\<close>. A \<open>dict\<close> decoded from JSON has string keys only, so an integer key is
  never found in it.
\<close>

fun getitem_str :: "json \<Rightarrow> string \<Rightarrow> py_error + json" where
  "getitem_str (JObj d) k = (case map_of d k of None \<Rightarrow> Inl KeyError | Some v \<Rightarrow> Inr v)"
| "getitem_str _ k = Inl TypeError"

fun getitem_int :: "json \<Rightarrow> nat \<Rightarrow> py_error + json" where
  "getitem_int (JArr xs) i = (if i < length xs then Inr (xs ! i) else Inl IndexError)"
| "getitem_int (JStr s) i = (if i < length s then Inr (JStr [s ! i]) else Inl IndexError)"
| "getitem_int (JObj d) i = Inl KeyError"
| "getitem_int _ i = Inl TypeError"

fun py_len :: "json \<Rightarrow> py_error + nat" where
  "py_len (JArr xs) = Inr (length xs)"
| "py_len (JStr s) = Inr (length s)"
| "py_len (JObj d) = Inr (length d)"
| "py_len _ = Inl TypeError"

section \<open>Objects, the network and the client\<close>

text \<open>
  Dictionaries are objects: two names can refer to one dictionary, and a store through
  one name is seen through the other. The \<open>world\<close> holds the dictionaries by address,
  the next free address, and the requests issued so far (oldest first).
\<close>

type_synonym addr = nat

record request =
  req_url :: string
  req_params :: pydict
  req_headers :: pydict

record response =
  status_code :: nat
  body_text :: string
  body_content :: string

record world =
  heap :: "addr \<Rightarrow> pydict"
  fresh :: addr
  sent :: "request list"

definition alloc :: "pydict \<Rightarrow> world \<Rightarrow> addr \<times> world" where
  "alloc d w = (fresh w, w\<lparr>heap := (heap w)(fresh w := d), fresh := Suc (fresh w)\<rparr>)"

definition setitem :: "addr \<Rightarrow> string \<Rightarrow> scalar \<Rightarrow> world \<Rightarrow> world" where
  "setitem a k v w = w\<lparr>heap := (heap w)(a := AList.update k v (heap w a))\<rparr>"

text \<open>
  The remote service and the transport under \<open>requests.get\<close>: a request is answered by
  a response, or the transport raises.
\<close>

type_synonym transport = "request \<Rightarrow> py_error + response"

text \<open>
  \<open>Response.raise_for_status\<close> of the requests library raises \<open>HTTPError\<close> for a status
  from 400 to 599 (client and server errors) and returns for every other status.
\<close>

definition raise_for_status :: "response \<Rightarrow> py_error + unit" where
  "raise_for_status r =
     (if 400 \<le> status_code r \<and> status_code r < 600 then Inl (HTTPError (status_code r))
      else Inr ())"

text \<open>
  The class: \<open>__init__\<close> stores the base URL and the reference to the headers dictionary
  it is given. The default value of \<open>headers\<close> is one dictionary, built once when the
  \<open>def\<close> statement runs, at address \<open>default_headers\<close>; \<open>module_world\<close> is the world
  right after the module is loaded.
\<close>

record Redfin =
  base :: string
  headers :: addr

definition default_headers :: addr where
  "default_headers = 0"

definition module_world :: world where
  "module_world = \<lparr>heap = (\<lambda>a. [])(default_headers := [(''user-agent'', PStr '''')]),
                    fresh = Suc default_headers, sent = []\<rparr>"

definition init :: "addr option \<Rightarrow> Redfin" where
  "init hdrs = \<lparr>base = ''https://redfin.com/stingray/'',
                headers = (case hdrs of None \<Rightarrow> default_headers | Some a \<Rightarrow> a)\<rparr>"

text \<open>
  \<open>redfin_request\<close>: one GET of \<open>self.base + url\<close> with the parameters given and the
  headers as the dictionary holds them at the time of the call, then \<open>raise_for_status\<close>.
  The parameters are read at once and never stored into, so they are passed by value.
\<close>

definition redfin_request ::
  "transport \<Rightarrow> Redfin \<Rightarrow> string \<Rightarrow> pydict \<Rightarrow> world \<Rightarrow> (py_error + response) \<times> world" where
  "redfin_request net self url params w =
     (let req = \<lparr>req_url = base self @ url, req_params = params,
                 req_headers = heap w (headers self)\<rparr>;
          w' = w\<lparr>sent := sent w @ [req]\<rparr>
      in case net req of
           Inl e \<Rightarrow> (Inl e, w')
         | Inr response \<Rightarrow>
             (case raise_for_status response of
                Inl e \<Rightarrow> (Inl e, w')
              | Inr _ \<Rightarrow> (Inr response, w')))"

section \<open>Decoding a response\<close>

text \<open>
  \<open>json.loads\<close> of the standard library, as \<open>JSONDecoder.decode\<close> runs it: skip the
  white space at the front, scan one value, skip the white space after it, and fail on
  anything left. The scanner reads the character at the index first and signals
  \<open>StopIteration\<close> when the index is past the end, which \<open>raw_decode\<close> reports as
  \<open>JSONDecodeError\<close>. How a value is scanned from a character that is there (the grammar
  of JSON values) is the parameter \<open>value_at\<close>: it returns the value and the index after
  it, or raises.
\<close>

type_synonym scanner = "string \<Rightarrow> nat \<Rightarrow> py_error + (json \<times> nat)"

definition is_json_ws :: "char \<Rightarrow> bool" where
  "is_json_ws c = (c = CHR '' '' \<or> c = CHR 0x09 \<or> c = CHR 0x0A \<or> c = CHR 0x0D)"

definition whitespace_end :: "string \<Rightarrow> nat \<Rightarrow> nat" where
  "whitespace_end s idx = idx + length (takeWhile is_json_ws (drop idx s))"

definition scan_once :: "scanner \<Rightarrow> string \<Rightarrow> nat \<Rightarrow> py_error + (json \<times> nat)" where
  "scan_once value_at s idx = (if idx < length s then value_at s idx else Inl StopIteration)"

definition raw_decode :: "scanner \<Rightarrow> string \<Rightarrow> nat \<Rightarrow> py_error + (json \<times> nat)" where
  "raw_decode value_at s idx =
     (case scan_once value_at s idx of
        Inl e \<Rightarrow> Inl (if e = StopIteration then JSONDecodeError else e)
      | Inr r \<Rightarrow> Inr r)"

definition json_loads :: "scanner \<Rightarrow> string \<Rightarrow> py_error + json" where
  "json_loads value_at s =
     (case raw_decode value_at s (whitespace_end s 0) of
        Inl e \<Rightarrow> Inl e
      | Inr (obj, stop) \<Rightarrow>
          (if whitespace_end s stop \<noteq> length s then Inl JSONDecodeError else Inr obj))"

text \<open>\<open>_format_response\<close>: \<open>json.loads(response.text[4:])\<close>. A slice never raises.\<close>

definition format_response :: "scanner \<Rightarrow> response \<Rightarrow> py_error + json" where
  "format_response value_at response = json_loads value_at (drop 4 (body_text response))"

section \<open>The two request helpers\<close>

text \<open>
  A step that works on the value of a call that went through the world: an exception of
  the call propagates, and the world is the one the call left.
\<close>

definition and_then ::
  "(py_error + 'a) \<times> world \<Rightarrow> ('a \<Rightarrow> py_error + 'b) \<Rightarrow> (py_error + 'b) \<times> world" where
  "and_then rw f = (case fst rw of Inl e \<Rightarrow> (Inl e, snd rw) | Inr x \<Rightarrow> (f x, snd rw))"

text \<open>
  \<open>request_property_data\<close> is given a reference to the caller's dictionary. With \<open>page\<close>
  it stores \<open>pageType\<close> into that dictionary, then sends a new dictionary that starts
  with \<open>accessLevel\<close> and takes every pair of the caller's.
\<close>

definition request_property_data ::
  "transport \<Rightarrow> scanner \<Rightarrow> Redfin \<Rightarrow> string \<Rightarrow> addr \<Rightarrow> bool \<Rightarrow> world
     \<Rightarrow> (py_error + json) \<times> world" where
  "request_property_data net value_at self url params page w =
     (let w1 = (if page then setitem params ''pageType'' (PInt 3) w else w)
      in and_then
           (redfin_request net self (''api/home/details/'' @ url)
              (dict_unpack [(''accessLevel'', PInt 1)] (heap w1 params)) w1)
           (format_response value_at))"

definition request_region_data ::
  "transport \<Rightarrow> scanner \<Rightarrow> Redfin \<Rightarrow> string \<Rightarrow> scalar \<Rightarrow> scalar \<Rightarrow> scalar \<Rightarrow> world
     \<Rightarrow> (py_error + json) \<times> world" where
  "request_region_data net value_at self url region_type region_id property_type w =
     (let request_url =
            (if property_type = PStr '''' then
               ''api/region/'' @ py_str region_type @ ''/'' @ py_str region_id @ ''/'' @ url
             else
               ''api/region/'' @ py_str region_type @ ''/'' @ py_str region_id @ ''/''
                 @ py_str property_type @ ''/'' @ url)
      in and_then (redfin_request net self request_url [] w) (format_response value_at))"

section \<open>The domain methods\<close>

text \<open>
  What a method hands back is a Python object of one of three kinds: a value decoded
  from JSON (or built from such values), a \<open>requests.Response\<close>, or \<open>bytes\<close>.
\<close>

datatype pyobj = JsonVal json | ResponseObj response | BytesObj string

definition bind_err :: "py_error + 'a \<Rightarrow> ('a \<Rightarrow> py_error + 'b) \<Rightarrow> py_error + 'b" where
  "bind_err r f = (case r of Inl e \<Rightarrow> Inl e | Inr x \<Rightarrow> f x)"

text \<open>A loop or comprehension over a list: the first exception ends it.\<close>

fun map_err :: "('a \<Rightarrow> py_error + 'b) \<Rightarrow> 'a list \<Rightarrow> py_error + 'b list" where
  "map_err f [] = Inr []"
| "map_err f (x # xs) = bind_err (f x) (\<lambda>y. bind_err (map_err f xs) (\<lambda>ys. Inr (y # ys)))"

definition search ::
  "transport \<Rightarrow> scanner \<Rightarrow> Redfin \<Rightarrow> string \<Rightarrow> pydict \<Rightarrow> world \<Rightarrow> (py_error + pyobj) \<times> world" where
  "search net value_at self query kwargs w =
     and_then
       (redfin_request net self ''do/location-autocomplete''
          (dict_unpack [(''location'', PStr query), (''v'', PInt 2)] kwargs) w)
       (\<lambda>response. bind_err (format_response value_at response) (\<lambda>return_dict.
          Inr (JsonVal return_dict)))"

text \<open>
  \<open>str.rsplit(sep)\<close> with no limit on the number of splits cuts at every separator, as
  \<open>str.split(sep)\<close> does; the pieces may be empty.
\<close>

fun rsplit :: "char \<Rightarrow> string \<Rightarrow> string list" where
  "rsplit c [] = [[]]"
| "rsplit c (x # xs) =
     (if x = c then [] # rsplit c xs
      else (case rsplit c xs of [] \<Rightarrow> [[x]] | p # ps \<Rightarrow> (x # p) # ps))"

definition method_rsplit :: "json \<Rightarrow> char \<Rightarrow> py_error + string list" where
  "method_rsplit obj c = (case obj of JStr s \<Rightarrow> Inr (rsplit c s) | _ \<Rightarrow> Inl AttributeError)"

definition get_region_id :: "json \<Rightarrow> py_error + string" where
  "get_region_id search_response =
     bind_err (getitem_str search_response ''payload'') (\<lambda>payload.
     bind_err (getitem_str payload ''sections'') (\<lambda>sections.
     bind_err (getitem_int sections 0) (\<lambda>section0.
     bind_err (getitem_str section0 ''rows'') (\<lambda>rows.
     bind_err (getitem_int rows 0) (\<lambda>row.
     bind_err (getitem_str row ''id'') (\<lambda>ident.
     bind_err (method_rsplit ident CHR ''_'') (\<lambda>pieces.
       if 1 < length pieces then Inr (pieces ! 1) else Inl IndexError)))))))"

record gis_csv_args =
  arg_region_id :: scalar
  arg_region_type :: scalar
  arg_al :: int
  arg_has_deal :: bool
  arg_has_dishwasher :: bool
  arg_has_laundry_facility :: bool
  arg_has_laundry_hookups :: bool
  arg_has_parking :: bool
  arg_has_pool :: bool
  arg_has_short_term_lease :: bool
  arg_include_pending_homes :: bool
  arg_is_rentals :: bool
  arg_is_furnished :: bool
  arg_market :: string
  arg_num_homes :: int
  arg_ord :: string
  arg_page_number :: int
  arg_sold_within_days :: int
  arg_status :: int
  arg_travel_with_traffic :: bool
  arg_travel_within_region :: bool
  arg_uipt :: string
  arg_utilities_included :: bool
  arg_v :: int

definition get_search_results_table ::
  "transport \<Rightarrow> Redfin \<Rightarrow> gis_csv_args \<Rightarrow> world \<Rightarrow> (py_error + pyobj) \<times> world" where
  "get_search_results_table net self a w =
     (let params =
        [(''al'', PInt (arg_al a)),
         (''has_deal'', PBool (arg_has_deal a)),
         (''has_dishwasher'', PBool (arg_has_dishwasher a)),
         (''has_laundry_facility'', PBool (arg_has_laundry_facility a)),
         (''has_laundry_hookups'', PBool (arg_has_laundry_hookups a)),
         (''has_parking'', PBool (arg_has_parking a)),
         (''has_pool'', PBool (arg_has_pool a)),
         (''has_short_term_lease'', PBool (arg_has_short_term_lease a)),
         (''include_pending_homes'', PBool (arg_include_pending_homes a)),
         (''isRentals'', PBool (arg_is_rentals a)),
         (''is_furnished'', PBool (arg_is_furnished a)),
         (''market'', PStr (arg_market a)),
         (''num_homes'', PInt (arg_num_homes a)),
         (''ord'', PStr (arg_ord a)),
         (''page_number'', PInt (arg_page_number a)),
         (''region_id'', arg_region_id a),
         (''region_type'', arg_region_type a),
         (''sold_within_days'', PInt (arg_sold_within_days a)),
         (''status'', PInt (arg_status a)),
         (''travel_with_traffic'', PBool (arg_travel_with_traffic a)),
         (''travel_within_region'', PBool (arg_travel_within_region a)),
         (''uipt'', PStr (arg_uipt a)),
         (''utilities_included'', PBool (arg_utilities_included a)),
         (''v'', PInt (arg_v a))]
      in and_then (redfin_request net self ''api/gis-csv'' params w)
           (\<lambda>response. Inr (BytesObj (body_content response))))"

definition primary_region ::
  "transport \<Rightarrow> Redfin \<Rightarrow> string \<Rightarrow> world \<Rightarrow> (py_error + pyobj) \<times> world" where
  "primary_region net self url w =
     and_then (redfin_request net self ''api/home/details/primaryRegionInfo'' [(''path'', PStr url)] w)
       (\<lambda>response. Inr (ResponseObj response))"

definition shared_region ::
  "transport \<Rightarrow> Redfin \<Rightarrow> scalar \<Rightarrow> pydict \<Rightarrow> world \<Rightarrow> (py_error + pyobj) \<times> world" where
  "shared_region net self table_id kwargs w =
     and_then
       (redfin_request net self ''api/region/shared-region-info''
          (dict_unpack
             [(''tableId'', table_id), (''regionTypeId'', PInt 2), (''mapPageTypeId'', PInt 1)]
             kwargs) w)
       (\<lambda>response. Inr (ResponseObj response))"

definition get_recently_sold ::
  "transport \<Rightarrow> Redfin \<Rightarrow> scalar \<Rightarrow> scalar \<Rightarrow> world \<Rightarrow> (py_error + pyobj) \<times> world" where
  "get_recently_sold net self region_type region_id w =
     and_then
       (redfin_request net self ''api/gis/recently-sold''
          [(''region_type'', region_type), (''region_id'', region_id)] w)
       (\<lambda>response. Inr (ResponseObj response))"

text \<open>
  The methods on one property build a dictionary of their own and hand its reference to
  \<open>request_property_data\<close>.
\<close>

definition property_params :: "scalar \<Rightarrow> scalar \<Rightarrow> pydict" where
  "property_params property_id listing_id =
     [(''propertyId'', property_id), (''listingId'', listing_id)]"

definition get_property_information ::
  "transport \<Rightarrow> scanner \<Rightarrow> Redfin \<Rightarrow> scalar \<Rightarrow> scalar \<Rightarrow> world \<Rightarrow> (py_error + pyobj) \<times> world" where
  "get_property_information net value_at self property_id listing_id w =
     (let (params, w1) = alloc (property_params property_id listing_id) w
      in and_then (request_property_data net value_at self ''belowTheFold'' params False w1)
           (\<lambda>response. Inr (JsonVal response)))"

text \<open>Iteration over a decoded value: a list gives its elements, a string its characters,
  a dictionary its keys; nothing else is iterable.\<close>

fun py_iter :: "json \<Rightarrow> py_error + json list" where
  "py_iter (JArr xs) = Inr xs"
| "py_iter (JStr s) = Inr (map (\<lambda>c. JStr [c]) s)"
| "py_iter (JObj d) = Inr (map (\<lambda>kv. JStr (fst kv)) d)"
| "py_iter _ = Inl TypeError"

text \<open>The loop of \<open>get_property_images\<close> over \<open>response["payload"]["mediaBrowserInfo"]["photos"]\<close>.\<close>

definition image_urls :: "json \<Rightarrow> py_error + json list" where
  "image_urls response =
     bind_err (getitem_str response ''payload'') (\<lambda>payload.
     bind_err (getitem_str payload ''mediaBrowserInfo'') (\<lambda>info.
     bind_err (getitem_str info ''photos'') (\<lambda>photos.
     bind_err (py_iter photos) (\<lambda>items.
       map_err (\<lambda>i. bind_err (getitem_str i ''photoUrls'') (\<lambda>urls.
                  getitem_str urls ''nonFullScreenPhotoUrlCompressed'')) items))))"

definition get_property_images ::
  "transport \<Rightarrow> scanner \<Rightarrow> Redfin \<Rightarrow> scalar \<Rightarrow> scalar \<Rightarrow> world \<Rightarrow> (py_error + pyobj) \<times> world" where
  "get_property_images net value_at self property_id listing_id w =
     (let (params, w1) = alloc (property_params property_id listing_id) w
      in and_then (request_property_data net value_at self ''aboveTheFold'' params False w1)
           (\<lambda>response. bind_err (image_urls response) (\<lambda>image_list.
              Inr (JsonVal (JArr image_list)))))"

subsection \<open>Month labels\<close>

text \<open>
  \<open>strftime("%b %y")\<close> reads the month and the year of a \<open>datetime\<close> and nothing else,
  and \<open>relativedelta(months=k)\<close> moves the month and the year without looking at the
  day, so a \<open>datetime\<close> is modelled by its year and month. The comprehension calls
  \<open>datetime.datetime.today()\<close> once for each label: the \<open>clock\<close> is an input of the
  method, and \<open>clock k\<close> is what the call number \<open>k\<close> (from 0) returns.
\<close>

record datetime =
  year :: int
  month :: int

type_synonym clock = "nat \<Rightarrow> datetime"

text \<open>
  \<open>dateutil.relativedelta\<close>: the constructor normalises the months into -11..11 and
  carries into the years (\<open>_fix\<close>); \<open>dt - rd\<close> is \<open>rd.__rsub__(dt)\<close>, the negated delta
  added to \<open>dt\<close>; the addition moves the year, then the month, wraps the month once into
  1..12, and \<open>datetime.replace\<close> raises \<open>ValueError\<close> for a year outside 1..9999.
\<close>

record relativedelta =
  years :: int
  months :: int

definition rd_fix :: "relativedelta \<Rightarrow> relativedelta" where
  "rd_fix rd =
     (if 11 < \<bar>months rd\<bar> then
        (let s = sgn (months rd)
         in \<lparr>years = years rd + (months rd * s) div 12 * s, months = (months rd * s) mod 12 * s\<rparr>)
      else rd)"

definition relativedelta_months :: "int \<Rightarrow> relativedelta" where
  "relativedelta_months k = rd_fix \<lparr>years = 0, months = k\<rparr>"

definition rd_neg :: "relativedelta \<Rightarrow> relativedelta" where
  "rd_neg rd = rd_fix \<lparr>years = - years rd, months = - months rd\<rparr>"

definition rd_radd :: "relativedelta \<Rightarrow> datetime \<Rightarrow> py_error + datetime" where
  "rd_radd rd other =
     (let y0 = year other + years rd;
          m0 = month other;
          (y1, m1) =
            (if months rd \<noteq> 0 then
               (let m = m0 + months rd
                in if 12 < m then (y0 + 1, m - 12)
                   else if m < 1 then (y0 - 1, m + 12)
                   else (y0, m))
             else (y0, m0))
      in if 1 \<le> y1 \<and> y1 \<le> 9999 then Inr \<lparr>year = y1, month = m1\<rparr> else Inl ValueError)"

definition rd_rsub :: "datetime \<Rightarrow> relativedelta \<Rightarrow> py_error + datetime" where
  "rd_rsub other rd = rd_radd (rd_neg rd) other"

text \<open>\<open>%b\<close> is the abbreviated month name (in the C locale), \<open>%y\<close> the year modulo 100 in
  two digits.\<close>

definition month_abbr :: "int \<Rightarrow> string" where
  "month_abbr m =
     [''Jan'', ''Feb'', ''Mar'', ''Apr'', ''May'', ''Jun'',
      ''Jul'', ''Aug'', ''Sep'', ''Oct'', ''Nov'', ''Dec''] ! nat (m - 1)"

definition two_digits :: "int \<Rightarrow> string" where
  "two_digits n = [digit_char (nat (n div 10)), digit_char (nat (n mod 10))]"

definition strftime_b_y :: "datetime \<Rightarrow> string" where
  "strftime_b_y d = month_abbr (month d) @ '' '' @ two_digits (year d mod 100)"

text \<open>
  \<open>month_range = list(range(-1, 12 * 5))\<close>; the comprehension formats
  \<open>datetime.datetime.today() - relativedelta(months=i - 1)\<close> for each \<open>i\<close> of it, reading
  the clock anew each time (\<open>enumerate\<close> numbers the reads), and \<open>[::-1]\<close> reverses the
  list.
\<close>

definition month_range :: "int list" where
  "month_range = [-1..59]"

definition month_list :: "clock \<Rightarrow> py_error + string list" where
  "month_list clock =
     bind_err
       (map_err (\<lambda>(k, i). bind_err (rd_rsub (clock k) (relativedelta_months (i - 1)))
                             (\<lambda>d. Inr (strftime_b_y d))) (enumerate 0 month_range))
       (\<lambda>labels. Inr (rev labels))"

text \<open>
  The dictionary comprehension \<open>{month_list[i]: estimate_list[i] for i in
  range(len(estimate_list))}\<close>: one step for each index, the key first, then the value,
  then the store into the dictionary built so far.
\<close>

definition ts_step ::
  "string list \<Rightarrow> json \<Rightarrow> nat \<Rightarrow> py_error + (string \<times> json) list
     \<Rightarrow> py_error + (string \<times> json) list" where
  "ts_step labels estimate_list i acc =
     bind_err acc (\<lambda>ts.
       if i < length labels then
         bind_err (getitem_int estimate_list i) (\<lambda>v. Inr (AList.update (labels ! i) v ts))
       else Inl IndexError)"

definition label_estimates :: "clock \<Rightarrow> json \<Rightarrow> py_error + (string \<times> json) list" where
  "label_estimates clock response =
     bind_err (getitem_str response ''payload'') (\<lambda>payload.
     bind_err (getitem_str payload ''propertyTimeSeries'') (\<lambda>estimate_list.
     bind_err (month_list clock) (\<lambda>labels.
     bind_err (py_len estimate_list) (\<lambda>n.
       fold (ts_step labels estimate_list) [0..<n] (Inr [])))))"

definition get_property_timeseries_estimate ::
  "transport \<Rightarrow> scanner \<Rightarrow> clock \<Rightarrow> Redfin \<Rightarrow> scalar \<Rightarrow> scalar \<Rightarrow> world
     \<Rightarrow> (py_error + pyobj) \<times> world" where
  "get_property_timeseries_estimate net value_at clock self property_id listing_id w =
     (let (params, w1) = alloc (property_params property_id listing_id) w
      in and_then (request_property_data net value_at self ''avmHistoricalData'' params False w1)
           (\<lambda>response. bind_err (label_estimates clock response) (\<lambda>ts.
              Inr (JsonVal (JObj ts)))))"

definition get_similar_homes ::
  "transport \<Rightarrow> scanner \<Rightarrow> Redfin \<Rightarrow> scalar \<Rightarrow> scalar \<Rightarrow> world \<Rightarrow> (py_error + pyobj) \<times> world" where
  "get_similar_homes net value_at self property_id listing_id w =
     (let (params, w1) = alloc (property_params property_id listing_id) w
      in and_then (request_property_data net value_at self ''avm'' params False w1)
           (\<lambda>response. Inr (JsonVal response)))"

subsection \<open>Methods on a region\<close>

text \<open>
  Each of these passes its arguments to \<open>request_region_data\<close> with a fixed suffix and
  returns what it gets. The last six take no property type: the helper's default, the
  empty string, applies.
\<close>

definition get_offer_insights ::
  "transport \<Rightarrow> scanner \<Rightarrow> Redfin \<Rightarrow> scalar \<Rightarrow> scalar \<Rightarrow> scalar \<Rightarrow> world
     \<Rightarrow> (py_error + pyobj) \<times> world" where
  "get_offer_insights net value_at self region_type region_id property_type w =
     and_then
       (request_region_data net value_at self ''offer-insights'' region_type region_id property_type w)
       (\<lambda>response. Inr (JsonVal response))"

definition get_best_schools ::
  "transport \<Rightarrow> scanner \<Rightarrow> Redfin \<Rightarrow> scalar \<Rightarrow> scalar \<Rightarrow> scalar \<Rightarrow> world
     \<Rightarrow> (py_error + pyobj) \<times> world" where
  "get_best_schools net value_at self region_type region_id property_type w =
     and_then
       (request_region_data net value_at self ''best-schools'' region_type region_id property_type w)
       (\<lambda>response. Inr (JsonVal response))"

definition get_walk_score_data ::
  "transport \<Rightarrow> scanner \<Rightarrow> Redfin \<Rightarrow> scalar \<Rightarrow> scalar \<Rightarrow> scalar \<Rightarrow> world
     \<Rightarrow> (py_error + pyobj) \<times> world" where
  "get_walk_score_data net value_at self region_type region_id property_type w =
     and_then
       (request_region_data net value_at self ''walk-score-data'' region_type region_id property_type w)
       (\<lambda>response. Inr (JsonVal response))"

definition get_region_trends ::
  "transport \<Rightarrow> scanner \<Rightarrow> Redfin \<Rightarrow> scalar \<Rightarrow> scalar \<Rightarrow> scalar \<Rightarrow> world
     \<Rightarrow> (py_error + pyobj) \<times> world" where
  "get_region_trends net value_at self region_type region_id property_type w =
     and_then
       (request_region_data net value_at self ''trends'' region_type region_id property_type w)
       (\<lambda>response. Inr (JsonVal response))"

definition get_flood_risk_data ::
  "transport \<Rightarrow> scanner \<Rightarrow> Redfin \<Rightarrow> scalar \<Rightarrow> scalar \<Rightarrow> world
     \<Rightarrow> (py_error + pyobj) \<times> world" where
  "get_flood_risk_data net value_at self region_type region_id w =
     and_then
       (request_region_data net value_at self ''floodRisk-data'' region_type region_id (PStr '''') w)
       (\<lambda>response. Inr (JsonVal response))"

definition get_market_insights_interlinks ::
  "transport \<Rightarrow> scanner \<Rightarrow> Redfin \<Rightarrow> scalar \<Rightarrow> scalar \<Rightarrow> world
     \<Rightarrow> (py_error + pyobj) \<times> world" where
  "get_market_insights_interlinks net value_at self region_type region_id w =
     and_then
       (request_region_data net value_at self ''market-insights-interlinks'' region_type region_id (PStr '''') w)
       (\<lambda>response. Inr (JsonVal response))"

definition get_env_risk_data ::
  "transport \<Rightarrow> scanner \<Rightarrow> Redfin \<Rightarrow> scalar \<Rightarrow> scalar \<Rightarrow> world
     \<Rightarrow> (py_error + pyobj) \<times> world" where
  "get_env_risk_data net value_at self region_type region_id w =
     and_then
       (request_region_data net value_at self ''envRisk-data'' region_type region_id (PStr '''') w)
       (\<lambda>response. Inr (JsonVal response))"

definition get_home_feature_trends ::
  "transport \<Rightarrow> scanner \<Rightarrow> Redfin \<Rightarrow> scalar \<Rightarrow> scalar \<Rightarrow> world
     \<Rightarrow> (py_error + pyobj) \<times> world" where
  "get_home_feature_trends net value_at self region_type region_id w =
     and_then
       (request_region_data net value_at self ''home-feature-trends/entrypoint'' region_type region_id (PStr '''') w)
       (\<lambda>response. Inr (JsonVal response))"

definition get_compete_score ::
  "transport \<Rightarrow> scanner \<Rightarrow> Redfin \<Rightarrow> scalar \<Rightarrow> scalar \<Rightarrow> world
     \<Rightarrow> (py_error + pyobj) \<times> world" where
  "get_compete_score net value_at self region_type region_id w =
     and_then
       (request_region_data net value_at self ''compete-score'' region_type region_id (PStr '''') w)
       (\<lambda>response. Inr (JsonVal response))"

definition get_nearby_compete_scores ::
  "transport \<Rightarrow> scanner \<Rightarrow> Redfin \<Rightarrow> scalar \<Rightarrow> scalar \<Rightarrow> world
     \<Rightarrow> (py_error + pyobj) \<times> world" where
  "get_nearby_compete_scores net value_at self region_type region_id w =
     and_then
       (request_region_data net value_at self ''nearby-compete-scores'' region_type region_id (PStr '''') w)
       (\<lambda>response. Inr (JsonVal response))"

section \<open>Words of the specification, and months by number\<close>

text \<open>
  The specification describes the region identifier as the suffix of the \<open>id\<close> after its
  first separator. This is that description, to compare \<open>get_region_id\<close> with.
\<close>

definition suffix_after_first :: "char \<Rightarrow> string \<Rightarrow> string" where
  "suffix_after_first c s = tl (dropWhile (\<lambda>x. x \<noteq> c) s)"

text \<open>
  Months counted from January of the year 0, to state which labels \<open>month_list\<close> holds:
  \<open>month_number\<close> of a date and the date of a number. \<open>clock_labels\<close> are the 61 labels
  by position, oldest first: the label at position \<open>k\<close> comes from the clock read number
  \<open>60 - k\<close>, moved back by \<open>58 - k\<close> months. \<open>month_labels\<close> are those labels when every
  read falls in the month of \<open>today\<close>: from 58 months before that month to 2 months
  after it.
\<close>

definition month_number :: "datetime \<Rightarrow> int" where
  "month_number d = 12 * year d + (month d - 1)"

definition nth_month :: "int \<Rightarrow> datetime" where
  "nth_month t = \<lparr>year = t div 12, month = t mod 12 + 1\<rparr>"

definition clock_labels :: "clock \<Rightarrow> string list" where
  "clock_labels clock =
     map (\<lambda>k. strftime_b_y (nth_month (month_number (clock (60 - k)) - 58 + int k))) [0..<61]"

definition month_labels :: "datetime \<Rightarrow> string list" where
  "month_labels today =
     map (\<lambda>k. strftime_b_y (nth_month (month_number today - 58 + int k))) [0..<61]"

section \<open>Example inputs\<close>

text \<open>
  Concrete inputs for the examples below. Two scanners: one knows the empty object only,
  the other yields one given value for any text and consumes all of it. A response with
  a given status whose text and content are one string, and a service that answers every
  request with one status and the body \<open>{}&&{}\<close>.
\<close>

definition example_scanner :: scanner where
  "example_scanner s i =
     (if take 2 (drop i s) = ''{}'' then Inr (JObj [], i + 2) else Inl JSONDecodeError)"

definition constant_scanner :: "json \<Rightarrow> scanner" where
  "constant_scanner j s i = Inr (j, length s)"

definition example_response :: "nat \<Rightarrow> string \<Rightarrow> response" where
  "example_response code body = \<lparr>status_code = code, body_text = body, body_content = body\<rparr>"

definition example_net :: "nat \<Rightarrow> transport" where
  "example_net code req = Inr (example_response code ''{}&&{}'')"

text \<open>
  A caller that has built one dictionary after the module was loaded (its reference and
  the world), a search payload with one section of one row whose \<open>id\<close> is given, a
  decoded payload that holds a given list of estimates, and a day in November 2026.
\<close>

definition example_caller :: "pydict \<Rightarrow> addr \<times> world" where
  "example_caller d = alloc d module_world"

definition example_search_response :: "string \<Rightarrow> json" where
  "example_search_response ident =
     JObj [(''payload'', JObj [(''sections'',
       JArr [JObj [(''rows'', JArr [JObj [(''id'', JStr ident)]])]])])]"

definition example_timeseries :: "json list \<Rightarrow> json" where
  "example_timeseries est = JObj [(''payload'', JObj [(''propertyTimeSeries'', JArr est)])]"

definition example_today :: datetime where
  "example_today = \<lparr>year = 2026, month = 11\<rparr>"

text \<open>
  Two clocks: one stays in November 2026; the other is read twice in November 2026 and
  from the third read on in December 2026 (the month ends while the labels are made).
\<close>

definition example_clock :: clock where
  "example_clock k = example_today"

definition rollover_clock :: clock where
  "rollover_clock k = (if k < 2 then \<lparr>year = 2026, month = 11\<rparr> else \<lparr>year = 2026, month = 12\<rparr>)"

section \<open>Facts about the helpers\<close>

lemma snd_and_then: "snd (and_then rw f) = snd rw"
  by (simp add: and_then_def split: sum.splits)

lemma fst_and_then: "fst (and_then rw f) = bind_err (fst rw) f"
  by (simp add: and_then_def bind_err_def split: sum.splits)

lemma redfin_request_sent:
  "sent (snd (redfin_request net self url params w)) =
     sent w @ [\<lparr>req_url = base self @ url, req_params = params,
                req_headers = heap w (headers self)\<rparr>]"
  by (simp add: redfin_request_def Let_def split: sum.splits)

lemma redfin_request_heap:
  "heap (snd (redfin_request net self url params w)) = heap w"
  by (simp add: redfin_request_def Let_def split: sum.splits)

lemma redfin_request_result:
  "fst (redfin_request net self url params w) =
     bind_err (net \<lparr>req_url = base self @ url, req_params = params,
                     req_headers = heap w (headers self)\<rparr>)
       (\<lambda>r. if 400 \<le> status_code r \<and> status_code r < 600 then Inl (HTTPError (status_code r))
            else Inr r)"
  by (simp add: redfin_request_def Let_def bind_err_def raise_for_status_def split: sum.splits)

lemma digits_lt10: "n < 10 \<Longrightarrow> digits n = [digit_char n]"
  by (simp add: digits.simps)

lemma digits_ge10: "10 \<le> n \<Longrightarrow> digits n = digits (n div 10) @ [digit_char (n mod 10)]"
  by (simp add: digits.simps)

lemma str_int_examples:
  "str_int 2 = ''2''" "str_int 8729 = ''8729''" "str_int 1 = ''1''"
  by (simp_all add: str_int_def digits_lt10 digits_ge10 digit_char_def)

lemma json_loads_empty: "json_loads value_at [] = Inl JSONDecodeError"
  by (simp add: json_loads_def raw_decode_def scan_once_def whitespace_end_def)

lemma example_loads: "json_loads example_scanner ''{}'' = Inr (JObj [])"
  by (simp add: json_loads_def raw_decode_def scan_once_def whitespace_end_def
      example_scanner_def is_json_ws_def)

section \<open>Region paths\<close>

text \<open>
  C8. \<open>request_region_data\<close> sends exactly one request, with no query parameters, to the
  base URL followed by \<open>api/region/{T}/{R}/{suffix}\<close> when the property type is the empty
  string and by \<open>api/region/{T}/{R}/{P}/{suffix}\<close> for every other property type \<open>P\<close>. For
  region type 2, region 8729 and suffix \<open>trends\<close> the paths are \<open>api/region/2/8729/trends\<close>
  and, with property type 1, \<open>api/region/2/8729/1/trends\<close>.
\<close>

theorem request_region_data_path:
  "sent (snd (request_region_data net value_at self url T R P w)) =
     sent w @ [\<lparr>req_url = base self @
                  (if P = PStr '''' then
                     ''api/region/'' @ py_str T @ ''/'' @ py_str R @ ''/'' @ url
                   else
                     ''api/region/'' @ py_str T @ ''/'' @ py_str R @ ''/'' @ py_str P @ ''/'' @ url),
                req_params = [], req_headers = heap w (headers self)\<rparr>] \<and>
   sent (snd (request_region_data net value_at self ''trends'' (PInt 2) (PInt 8729) (PStr '''') w)) =
     sent w @ [\<lparr>req_url = base self @ ''api/region/2/8729/trends'',
                req_params = [], req_headers = heap w (headers self)\<rparr>] \<and>
   sent (snd (request_region_data net value_at self ''trends'' (PInt 2) (PInt 8729) (PInt 1) w)) =
     sent w @ [\<lparr>req_url = base self @ ''api/region/2/8729/1/trends'',
                req_params = [], req_headers = heap w (headers self)\<rparr>]"
  by (simp add: request_region_data_def Let_def snd_and_then redfin_request_sent
        str_int_examples)

section \<open>Decoding\<close>

text \<open>
  C6. \<open>_format_response\<close> drops exactly the first four characters of the body text and
  parses the rest as JSON: for a body that is a four-character preamble followed by
  \<open>rest\<close>, the result is \<open>json.loads(rest)\<close>. For a body of fewer than four characters
  the slice is empty and the result is \<open>JSONDecodeError\<close>, whatever the scanner; no
  \<open>IndexError\<close> arises.
\<close>

theorem format_response_decodes:
  "(\<forall>pre rest. body_text r = pre @ rest \<and> length pre = 4 \<longrightarrow>
       format_response value_at r = json_loads value_at rest) \<and>
   (length (body_text r) < 4 \<longrightarrow> format_response value_at r = Inl JSONDecodeError)"
  by (simp add: format_response_def json_loads_empty)

theorem format_response_decodes_witness:
  "format_response example_scanner (example_response 200 ''{}&&{}'') = Inr (JObj []) \<and>
   format_response example_scanner (example_response 200 ''{}&'') = Inl JSONDecodeError"
proof -
  have split: "body_text (example_response 200 ''{}&&{}'') = ''{}&&'' @ ''{}'' \<and> length ''{}&&'' = 4"
    by (simp add: example_response_def)
  have short: "length (body_text (example_response 200 ''{}&'')) < 4"
    by (simp add: example_response_def)
  from format_response_decodes [of "example_response 200 ''{}&&{}''" example_scanner] split
  have "format_response example_scanner (example_response 200 ''{}&&{}'') =
          json_loads example_scanner ''{}''"
    by blast
  moreover from format_response_decodes [of "example_response 200 ''{}&''" example_scanner] short
  have "format_response example_scanner (example_response 200 ''{}&'') = Inl JSONDecodeError"
    by blast
  ultimately show ?thesis by (simp add: example_loads)
qed

section \<open>Failure statuses\<close>

lemma redfin_request_http_error:
  "\<forall>req. net req = Inr r \<Longrightarrow> 400 \<le> status_code r \<Longrightarrow> status_code r < 600 \<Longrightarrow>
   fst (redfin_request net self url params w) = Inl (HTTPError (status_code r))"
  by (simp add: redfin_request_result bind_err_def)

lemma request_property_data_http_error:
  "\<forall>req. net req = Inr r \<Longrightarrow> 400 \<le> status_code r \<Longrightarrow> status_code r < 600 \<Longrightarrow>
   fst (request_property_data net value_at self url params page w) = Inl (HTTPError (status_code r))"
  by (simp add: request_property_data_def Let_def fst_and_then redfin_request_http_error bind_err_def)

lemma request_region_data_http_error:
  "\<forall>req. net req = Inr r \<Longrightarrow> 400 \<le> status_code r \<Longrightarrow> status_code r < 600 \<Longrightarrow>
   fst (request_region_data net value_at self url T R P w) = Inl (HTTPError (status_code r))"
  by (simp add: request_region_data_def Let_def fst_and_then redfin_request_http_error bind_err_def)

text \<open>
  C7, as the code has it. \<open>redfin_request\<close> raises \<open>HTTPError\<close> exactly when the status of the
  response is from 400 to 599, and returns the response for every other status. When
  the service answers with a status from 400 to 599, every method that issues a request
  raises that \<open>HTTPError\<close>, whatever the scanner would make of the body: nothing is
  parsed and nothing is returned.
\<close>

theorem http_error_raised:
  assumes net: "\<forall>req. net req = Inr r"
  shows "fst (redfin_request net self url params w) =
           (if 400 \<le> status_code r \<and> status_code r < 600 then Inl (HTTPError (status_code r))
            else Inr r) \<and>
         (400 \<le> status_code r \<and> status_code r < 600 \<longrightarrow>
            fst (request_property_data net value_at self url pa page w) = Inl (HTTPError (status_code r)) \<and>
            fst (request_region_data net value_at self url T R P w) = Inl (HTTPError (status_code r)) \<and>
            fst (search net value_at self query kwargs w) = Inl (HTTPError (status_code r)) \<and>
            fst (get_search_results_table net self args w) = Inl (HTTPError (status_code r)) \<and>
            fst (primary_region net self url w) = Inl (HTTPError (status_code r)) \<and>
            fst (shared_region net self T kwargs w) = Inl (HTTPError (status_code r)) \<and>
            fst (get_recently_sold net self T R w) = Inl (HTTPError (status_code r)) \<and>
            fst (get_property_information net value_at self pid lid w) = Inl (HTTPError (status_code r)) \<and>
            fst (get_property_images net value_at self pid lid w) = Inl (HTTPError (status_code r)) \<and>
            fst (get_property_timeseries_estimate net value_at clock self pid lid w) =
              Inl (HTTPError (status_code r)) \<and>
            fst (get_similar_homes net value_at self pid lid w) = Inl (HTTPError (status_code r)) \<and>
            fst (get_offer_insights net value_at self T R P w) = Inl (HTTPError (status_code r)) \<and>
            fst (get_best_schools net value_at self T R P w) = Inl (HTTPError (status_code r)) \<and>
            fst (get_walk_score_data net value_at self T R P w) = Inl (HTTPError (status_code r)) \<and>
            fst (get_region_trends net value_at self T R P w) = Inl (HTTPError (status_code r)) \<and>
            fst (get_flood_risk_data net value_at self T R w) = Inl (HTTPError (status_code r)) \<and>
            fst (get_market_insights_interlinks net value_at self T R w) = Inl (HTTPError (status_code r)) \<and>
            fst (get_env_risk_data net value_at self T R w) = Inl (HTTPError (status_code r)) \<and>
            fst (get_home_feature_trends net value_at self T R w) = Inl (HTTPError (status_code r)) \<and>
            fst (get_compete_score net value_at self T R w) = Inl (HTTPError (status_code r)) \<and>
            fst (get_nearby_compete_scores net value_at self T R w) = Inl (HTTPError (status_code r)))"
proof (intro conjI impI)
  show "fst (redfin_request net self url params w) =
           (if 400 \<le> status_code r \<and> status_code r < 600 then Inl (HTTPError (status_code r))
            else Inr r)"
    using net by (simp add: redfin_request_result bind_err_def)
next
  assume range: "400 \<le> status_code r \<and> status_code r < 600"
  note errs = redfin_request_http_error [OF net] request_property_data_http_error [OF net]
    request_region_data_http_error [OF net]
  show "fst (request_property_data net value_at self url pa page w) = Inl (HTTPError (status_code r))"
    using range by (simp add: errs)
  show "fst (request_region_data net value_at self url T R P w) = Inl (HTTPError (status_code r))"
    using range by (simp add: errs)
  show "fst (search net value_at self query kwargs w) = Inl (HTTPError (status_code r))"
    using range by (simp add: search_def fst_and_then errs bind_err_def)
  show "fst (get_search_results_table net self args w) = Inl (HTTPError (status_code r))"
    using range by (simp add: get_search_results_table_def Let_def fst_and_then errs bind_err_def)
  show "fst (primary_region net self url w) = Inl (HTTPError (status_code r))"
    using range by (simp add: primary_region_def fst_and_then errs bind_err_def)
  show "fst (shared_region net self T kwargs w) = Inl (HTTPError (status_code r))"
    using range by (simp add: shared_region_def fst_and_then errs bind_err_def)
  show "fst (get_recently_sold net self T R w) = Inl (HTTPError (status_code r))"
    using range by (simp add: get_recently_sold_def fst_and_then errs bind_err_def)
  show "fst (get_property_information net value_at self pid lid w) = Inl (HTTPError (status_code r))"
    using range
    by (simp add: get_property_information_def split_beta fst_and_then errs bind_err_def)
  show "fst (get_property_images net value_at self pid lid w) = Inl (HTTPError (status_code r))"
    using range
    by (simp add: get_property_images_def split_beta fst_and_then errs bind_err_def)
  show "fst (get_property_timeseries_estimate net value_at clock self pid lid w) =
          Inl (HTTPError (status_code r))"
    using range
    by (simp add: get_property_timeseries_estimate_def split_beta fst_and_then errs bind_err_def)
  show "fst (get_similar_homes net value_at self pid lid w) = Inl (HTTPError (status_code r))"
    using range
    by (simp add: get_similar_homes_def split_beta fst_and_then errs bind_err_def)
  show "fst (get_offer_insights net value_at self T R P w) = Inl (HTTPError (status_code r))"
    using range by (simp add: get_offer_insights_def fst_and_then errs bind_err_def)
  show "fst (get_best_schools net value_at self T R P w) = Inl (HTTPError (status_code r))"
    using range by (simp add: get_best_schools_def fst_and_then errs bind_err_def)
  show "fst (get_walk_score_data net value_at self T R P w) = Inl (HTTPError (status_code r))"
    using range by (simp add: get_walk_score_data_def fst_and_then errs bind_err_def)
  show "fst (get_region_trends net value_at self T R P w) = Inl (HTTPError (status_code r))"
    using range by (simp add: get_region_trends_def fst_and_then errs bind_err_def)
  show "fst (get_flood_risk_data net value_at self T R w) = Inl (HTTPError (status_code r))"
    using range by (simp add: get_flood_risk_data_def fst_and_then errs bind_err_def)
  show "fst (get_market_insights_interlinks net value_at self T R w) = Inl (HTTPError (status_code r))"
    using range by (simp add: get_market_insights_interlinks_def fst_and_then errs bind_err_def)
  show "fst (get_env_risk_data net value_at self T R w) = Inl (HTTPError (status_code r))"
    using range by (simp add: get_env_risk_data_def fst_and_then errs bind_err_def)
  show "fst (get_home_feature_trends net value_at self T R w) = Inl (HTTPError (status_code r))"
    using range by (simp add: get_home_feature_trends_def fst_and_then errs bind_err_def)
  show "fst (get_compete_score net value_at self T R w) = Inl (HTTPError (status_code r))"
    using range by (simp add: get_compete_score_def fst_and_then errs bind_err_def)
  show "fst (get_nearby_compete_scores net value_at self T R w) = Inl (HTTPError (status_code r))"
    using range by (simp add: get_nearby_compete_scores_def fst_and_then errs bind_err_def)
qed

text \<open>
  C7, the example: a 404 raises from \<open>redfin_request\<close> and from \<open>search\<close>; a 200 is
  returned.
\<close>

theorem http_error_raised_witness:
  "fst (redfin_request (example_net 404) (init None) ''do/x'' [] module_world) = Inl (HTTPError 404) \<and>
   fst (search (example_net 404) example_scanner (init None) ''Albany'' [] module_world) =
     Inl (HTTPError 404) \<and>
   fst (redfin_request (example_net 200) (init None) ''do/x'' [] module_world) =
     Inr (example_response 200 ''{}&&{}'')"
proof -
  have a: "\<forall>req. example_net 404 req = Inr (example_response 404 ''{}&&{}'')"
    and b: "\<forall>req. example_net 200 req = Inr (example_response 200 ''{}&&{}'')"
    by (simp_all add: example_net_def)
  have c: "status_code (example_response 404 ''{}&&{}'') = 404"
    and d: "status_code (example_response 200 ''{}&&{}'') = 200"
    by (simp_all add: example_response_def)
  from http_error_raised [OF a, of "init None" "''do/x''" "[]" module_world example_scanner
      _ _ _ _ _ "''Albany''" "[]"] c
  have "fst (redfin_request (example_net 404) (init None) ''do/x'' [] module_world) =
          Inl (HTTPError 404) \<and>
        fst (search (example_net 404) example_scanner (init None) ''Albany'' [] module_world) =
          Inl (HTTPError 404)"
    by simp
  moreover from http_error_raised [OF b, of "init None" "''do/x''" "[]" module_world] d
  have "fst (redfin_request (example_net 200) (init None) ''do/x'' [] module_world) =
          Inr (example_response 200 ''{}&&{}'')"
    by simp
  ultimately show ?thesis by simp
qed

text \<open>
  C7 as stated fails: 300 (Multiple Choices) is not a 2xx status, yet \<open>redfin_request\<close> returns the response
  and \<open>search\<close> decodes its body and returns the value.
\<close>

theorem non_2xx_returned_counterexample:
  "\<not> (200 \<le> status_code (example_response 300 ''{}&&{}'') \<and>
      status_code (example_response 300 ''{}&&{}'') < 300) \<and>
   fst (redfin_request (example_net 300) (init None) ''do/x'' [] module_world) =
     Inr (example_response 300 ''{}&&{}'') \<and>
   fst (search (example_net 300) example_scanner (init None) ''Albany'' [] module_world) =
     Inr (JsonVal (JObj []))"
  by (simp add: search_def fst_and_then redfin_request_result bind_err_def example_net_def
      format_response_def example_loads example_response_def)

section \<open>The parameters of a property request\<close>

lemma update_same_iff: "AList.update k v d = d \<longleftrightarrow> map_of d k = Some v"
  by (induction d) (auto simp: fun_eq_iff)

lemma map_of_dict_unpack:
  "distinct (map fst extra) \<Longrightarrow>
   map_of (dict_unpack d extra) k =
     (case map_of extra k of None \<Rightarrow> map_of d k | Some v \<Rightarrow> Some v)"
  unfolding dict_unpack_def
proof (induction extra arbitrary: d)
  case Nil
  then show ?case by simp
next
  case (Cons p extra)
  obtain k0 v0 where p: "p = (k0, v0)" by (cases p)
  from Cons.prems p have fresh: "map_of extra k0 = None" and d: "distinct (map fst extra)"
    by (auto simp: map_of_eq_None_iff)
  show ?case
    using Cons.IH [OF d, of "AList.update k0 v0 d"] fresh
    by (auto simp: p update_conv' split: option.splits)
qed

lemma request_property_data_heap:
  "heap (snd (request_property_data net value_at self url params page w)) =
     (if page then (heap w)(params := AList.update ''pageType'' (PInt 3) (heap w params))
      else heap w)"
  by (simp add: request_property_data_def Let_def snd_and_then redfin_request_heap setitem_def)

lemma request_property_data_sent:
  "sent (snd (request_property_data net value_at self url params page w)) =
     sent w @ [\<lparr>req_url = base self @ ''api/home/details/'' @ url,
                req_params = dict_unpack [(''accessLevel'', PInt 1)]
                   (if page then AList.update ''pageType'' (PInt 3) (heap w params)
                    else heap w params),
                req_headers =
                   (if page \<and> headers self = params
                    then AList.update ''pageType'' (PInt 3) (heap w params)
                    else heap w (headers self))\<rparr>]"
  by (simp add: request_property_data_def Let_def snd_and_then redfin_request_sent setitem_def)

text \<open>
  C1, as the code has it. The parameters \<open>request_property_data\<close> sends always hold
  \<open>accessLevel\<close>: with the value 1 when the caller's dictionary has no such key, and with
  the caller's own value when it has one (the caller's pairs are stored after the
  injected one). With \<open>page\<close> they hold \<open>pageType\<close> = 3.
\<close>

theorem request_property_data_params:
  assumes "distinct (map fst (heap w params))"
  shows "map_of (req_params (last (sent (snd (request_property_data net value_at self url params page w)))))
           ''accessLevel'' =
           (case map_of (heap w params) ''accessLevel'' of None \<Rightarrow> Some (PInt 1) | Some v \<Rightarrow> Some v) \<and>
         (page \<longrightarrow>
            map_of (req_params (last (sent (snd (request_property_data net value_at self url params page w)))))
              ''pageType'' = Some (PInt 3))"
proof -
  have d: "distinct (map fst (AList.update ''pageType'' (PInt 3) (heap w params)))"
    using assms by (simp add: distinct_update)
  show ?thesis
    using assms d
    by (simp add: request_property_data_sent map_of_dict_unpack update_conv' split: option.splits)
qed

text \<open>
  C1, the example: a caller's dictionary with \<open>propertyId\<close> only, and \<open>page\<close> true.
\<close>

theorem request_property_data_params_witness:
  "distinct (map fst (heap (snd (example_caller [(''propertyId'', PInt 7)]))
                        (fst (example_caller [(''propertyId'', PInt 7)])))) \<and>
   map_of (req_params (last (sent (snd (request_property_data (example_net 200) example_scanner
       (init None) ''belowTheFold'' (fst (example_caller [(''propertyId'', PInt 7)])) True
       (snd (example_caller [(''propertyId'', PInt 7)]))))))) ''accessLevel'' = Some (PInt 1) \<and>
   map_of (req_params (last (sent (snd (request_property_data (example_net 200) example_scanner
       (init None) ''belowTheFold'' (fst (example_caller [(''propertyId'', PInt 7)])) True
       (snd (example_caller [(''propertyId'', PInt 7)]))))))) ''pageType'' = Some (PInt 3)"
proof -
  have d: "distinct (map fst (heap (snd (example_caller [(''propertyId'', PInt 7)]))
                        (fst (example_caller [(''propertyId'', PInt 7)]))))"
    by (simp add: example_caller_def alloc_def)
  have none: "map_of (heap (snd (example_caller [(''propertyId'', PInt 7)]))
                 (fst (example_caller [(''propertyId'', PInt 7)]))) ''accessLevel'' = None"
    by (simp add: example_caller_def alloc_def)
  show ?thesis
    using d none request_property_data_params [OF d, of "example_net 200" example_scanner
        "init None" "''belowTheFold''" True]
    by simp
qed

text \<open>
  C1 as stated fails: a caller's \<open>accessLevel\<close> = 2 is what is sent, not 1.
\<close>

theorem accessLevel_override_counterexample:
  "map_of (req_params (last (sent (snd (request_property_data (example_net 200) example_scanner
       (init None) ''belowTheFold'' (fst (example_caller [(''accessLevel'', PInt 2)])) False
       (snd (example_caller [(''accessLevel'', PInt 2)]))))))) ''accessLevel'' = Some (PInt 2) \<and>
   Some (PInt 2) \<noteq> Some (PInt 1)"
  by (simp add: request_property_data_sent example_caller_def alloc_def dict_unpack_def)

text \<open>
  C9, as the code has it. After the call with \<open>page\<close> true the caller's dictionary is the
  one passed in with \<open>pageType\<close> = 3 stored into it, whether the request succeeds or
  raises, and no other dictionary has changed; with \<open>page\<close> false no dictionary has
  changed. The caller's dictionary differs from the one passed in exactly when \<open>page\<close> is
  true and it did not already hold \<open>pageType\<close> = 3.
\<close>

theorem request_property_data_mutates:
  "heap (snd (request_property_data net value_at self url params page w)) =
     (if page then (heap w)(params := AList.update ''pageType'' (PInt 3) (heap w params))
      else heap w) \<and>
   (heap (snd (request_property_data net value_at self url params page w)) params \<noteq> heap w params
      \<longleftrightarrow> page \<and> map_of (heap w params) ''pageType'' \<noteq> Some (PInt 3))"
  by (simp add: request_property_data_heap update_same_iff)

text \<open>
  C9 as stated fails: a dictionary that already holds \<open>pageType\<close> = 3 is the same after
  the call with \<open>page\<close> true.
\<close>

theorem params_unchanged_counterexample:
  "heap (snd (request_property_data (example_net 200) example_scanner (init None) ''belowTheFold''
            (fst (example_caller [(''propertyId'', PInt 7), (''pageType'', PInt 3)])) True
            (snd (example_caller [(''propertyId'', PInt 7), (''pageType'', PInt 3)]))))
     (fst (example_caller [(''propertyId'', PInt 7), (''pageType'', PInt 3)])) =
   heap (snd (example_caller [(''propertyId'', PInt 7), (''pageType'', PInt 3)]))
     (fst (example_caller [(''propertyId'', PInt 7), (''pageType'', PInt 3)]))"
  by (simp add: request_property_data_heap example_caller_def alloc_def)

section \<open>The default headers\<close>

text \<open>
  C5. Two clients built with the default \<open>headers\<close> hold the same reference. Before any
  store the dictionary is the documented default; after a store through the first
  client the second client's headers, and the headers of its next request, hold the
  stored value.
\<close>

theorem default_headers_shared:
  "(let c1 = init None;
        c2 = init None;
        w = setitem (headers c1) ''user-agent'' (PStr ''Mozilla/5.0'') module_world
    in heap module_world (headers c2) = [(''user-agent'', PStr '''')] \<and>
       heap w (headers c2) = [(''user-agent'', PStr ''Mozilla/5.0'')] \<and>
       req_headers (last (sent (snd (redfin_request (example_net 200) c2 ''do/x'' [] w)))) =
         [(''user-agent'', PStr ''Mozilla/5.0'')])"
  by (simp add: redfin_request_sent init_def module_world_def setitem_def)

section \<open>The region identifier\<close>

lemma rsplit_not_Nil: "rsplit c s \<noteq> []"
  by (induction s) (auto split: list.splits)

lemma hd_rsplit: "hd (rsplit c s) = takeWhile (\<lambda>x. x \<noteq> c) s"
  by (induction s) (auto split: list.splits simp: rsplit_not_Nil)

lemma rsplit_no_sep: "c \<notin> set s \<Longrightarrow> rsplit c s = [s]"
  by (induction s) auto

lemma rsplit_first_sep:
  "c \<in> set s \<Longrightarrow>
   rsplit c s = takeWhile (\<lambda>x. x \<noteq> c) s # rsplit c (suffix_after_first c s)"
  by (induction s) (auto simp: suffix_after_first_def split: list.splits)

lemma rsplit_second:
  "c \<in> set s \<Longrightarrow> 1 < length (rsplit c s) \<and>
     rsplit c s ! 1 = takeWhile (\<lambda>x. x \<noteq> c) (suffix_after_first c s)"
  using rsplit_not_Nil [of c "suffix_after_first c s"] hd_rsplit [of c "suffix_after_first c s"]
  by (cases "rsplit c (suffix_after_first c s)") (auto simp: rsplit_first_sep)

lemma get_region_id_shape:
  assumes "map_of resp ''payload'' = Some (JObj p)"
    and "map_of p ''sections'' = Some (JArr (JObj sec # secs))"
    and "map_of sec ''rows'' = Some (JArr (JObj row # rows))"
    and "map_of row ''id'' = Some (JStr s)"
  shows "get_region_id (JObj resp) =
           (if CHR ''_'' \<in> set s
            then Inr (takeWhile (\<lambda>x. x \<noteq> CHR ''_'') (suffix_after_first CHR ''_'' s))
            else Inl IndexError)"
proof (cases "CHR ''_'' \<in> set s")
  case True
  from rsplit_second [OF True] assms True show ?thesis
    by (simp add: get_region_id_def bind_err_def method_rsplit_def)
next
  case False
  with assms show ?thesis
    by (simp add: get_region_id_def bind_err_def method_rsplit_def rsplit_no_sep)
qed

lemma get_region_id_no_sections:
  assumes "map_of resp ''payload'' = Some (JObj p)"
    and "map_of p ''sections'' = Some (JArr [])"
  shows "get_region_id (JObj resp) = Inl IndexError"
  using assms by (simp add: get_region_id_def bind_err_def)

text \<open>
  C4, as the code has it. For a payload whose first section's first row has the string
  \<open>s\<close> as its \<open>id\<close>, \<open>get_region_id\<close> returns the second piece of \<open>s\<close> cut at every
  underscore: the suffix after the first underscore, up to the next underscore if there
  is one. It raises \<open>IndexError\<close> when \<open>s\<close> has no underscore. For the id \<open>123_456\<close> it
  returns \<open>456\<close>, and for a payload with an empty list of sections it raises
  \<open>IndexError\<close>.
\<close>

theorem get_region_id_second_piece:
  "(\<forall>resp p sec secs row rows s.
      map_of resp ''payload'' = Some (JObj p) \<and>
      map_of p ''sections'' = Some (JArr (JObj sec # secs)) \<and>
      map_of sec ''rows'' = Some (JArr (JObj row # rows)) \<and>
      map_of row ''id'' = Some (JStr s) \<longrightarrow>
      get_region_id (JObj resp) =
        (if CHR ''_'' \<in> set s
         then Inr (takeWhile (\<lambda>x. x \<noteq> CHR ''_'') (suffix_after_first CHR ''_'' s))
         else Inl IndexError)) \<and>
   get_region_id (example_search_response ''123_456'') = Inr ''456'' \<and>
   (\<forall>resp p. map_of resp ''payload'' = Some (JObj p) \<and> map_of p ''sections'' = Some (JArr []) \<longrightarrow>
      get_region_id (JObj resp) = Inl IndexError)"
proof (intro conjI allI impI)
  show "get_region_id (example_search_response ''123_456'') = Inr ''456''"
    by (simp add: example_search_response_def get_region_id_def bind_err_def method_rsplit_def)
qed (auto simp: get_region_id_shape get_region_id_no_sections)

text \<open>
  C4, the examples: the id \<open>2_8729\<close>, an id with no underscore, and no sections.
\<close>

theorem get_region_id_second_piece_witness:
  "get_region_id (example_search_response ''2_8729'') = Inr ''8729'' \<and>
   get_region_id (example_search_response ''Albany'') = Inl IndexError \<and>
   get_region_id (JObj [(''payload'', JObj [(''sections'', JArr [])])]) = Inl IndexError"
proof -
  have shape: "\<And>s. map_of [(''payload'', JObj [(''sections'',
                  JArr [JObj [(''rows'', JArr [JObj [(''id'', JStr s)]])]])])] ''payload'' =
                Some (JObj [(''sections'', JArr [JObj [(''rows'', JArr [JObj [(''id'', JStr s)]])]])]) \<and>
              map_of [(''sections'', JArr [JObj [(''rows'', JArr [JObj [(''id'', JStr s)]])]])] ''sections'' =
                Some (JArr (JObj [(''rows'', JArr [JObj [(''id'', JStr s)]])] # [])) \<and>
              map_of [(''rows'', JArr [JObj [(''id'', JStr s)]])] ''rows'' =
                Some (JArr (JObj [(''id'', JStr s)] # [])) \<and>
              map_of [(''id'', JStr s)] ''id'' = Some (JStr s)"
    by simp
  have none: "map_of [(''payload'', JObj [(''sections'', JArr [])])] ''payload'' =
                Some (JObj [(''sections'', JArr [])]) \<and>
              map_of [(''sections'', JArr [])] ''sections'' = Some (JArr [])"
    by simp
  note main = get_region_id_second_piece
  from main shape [of "''2_8729''"]
  have a: "get_region_id (example_search_response ''2_8729'') =
        (if CHR ''_'' \<in> set ''2_8729''
         then Inr (takeWhile (\<lambda>x. x \<noteq> CHR ''_'') (suffix_after_first CHR ''_'' ''2_8729''))
         else Inl IndexError)"
    unfolding example_search_response_def by blast
  from main shape [of "''Albany''"]
  have b: "get_region_id (example_search_response ''Albany'') =
        (if CHR ''_'' \<in> set ''Albany''
         then Inr (takeWhile (\<lambda>x. x \<noteq> CHR ''_'') (suffix_after_first CHR ''_'' ''Albany''))
         else Inl IndexError)"
    unfolding example_search_response_def by blast
  from main none
  have c: "get_region_id (JObj [(''payload'', JObj [(''sections'', JArr [])])]) = Inl IndexError"
    by blast
  show ?thesis
    using a b c by (simp add: suffix_after_first_def)
qed

text \<open>
  C4 as stated fails: for the id \<open>1_2_3\<close> the suffix after the first underscore is
  \<open>2_3\<close>, and \<open>get_region_id\<close> returns \<open>2\<close>.
\<close>

theorem suffix_after_first_counterexample:
  "get_region_id (example_search_response ''1_2_3'') = Inr ''2'' \<and>
   suffix_after_first CHR ''_'' ''1_2_3'' = ''2_3''"
  by (simp add: example_search_response_def get_region_id_def bind_err_def method_rsplit_def
      suffix_after_first_def)

section \<open>What the methods return\<close>

lemma redfin_request_ok:
  "\<forall>req. net req = Inr r \<Longrightarrow> \<not> (400 \<le> status_code r \<and> status_code r < 600) \<Longrightarrow>
   fst (redfin_request net self url params w) = Inr r"
  by (simp add: redfin_request_result bind_err_def)

lemma request_property_data_ok:
  "\<forall>req. net req = Inr r \<Longrightarrow> \<not> (400 \<le> status_code r \<and> status_code r < 600) \<Longrightarrow>
   fst (request_property_data net value_at self url params page w) =
     json_loads value_at (drop 4 (body_text r))"
  by (simp add: request_property_data_def Let_def fst_and_then redfin_request_ok bind_err_def
      format_response_def)

lemma request_region_data_ok:
  "\<forall>req. net req = Inr r \<Longrightarrow> \<not> (400 \<le> status_code r \<and> status_code r < 600) \<Longrightarrow>
   fst (request_region_data net value_at self url T R P w) =
     json_loads value_at (drop 4 (body_text r))"
  by (simp add: request_region_data_def Let_def fst_and_then redfin_request_ok bind_err_def
      format_response_def)

text \<open>
  C2, as the code has it. When the service answers with a status outside 400..599:
  \<open>search\<close>, \<open>get_property_information\<close>, \<open>get_similar_homes\<close> and the ten methods on a
  region return the decoded payload, that is the body text without its first four
  characters, parsed as JSON; \<open>get_property_images\<close> and
  \<open>get_property_timeseries_estimate\<close> return a value built from that decoded payload;
  \<open>primary_region\<close> and \<open>shared_region\<close> return the response object itself, as their
  annotations say; \<open>get_search_results_table\<close> returns the content of the response.
\<close>

theorem methods_return:
  assumes net: "\<forall>req. net req = Inr r"
    and ok: "\<not> (400 \<le> status_code r \<and> status_code r < 600)"
  shows "fst (search net value_at self query kwargs w) =
           bind_err (json_loads value_at (drop 4 (body_text r))) (\<lambda>j. Inr (JsonVal j)) \<and>
         fst (get_property_information net value_at self pid lid w) =
           bind_err (json_loads value_at (drop 4 (body_text r))) (\<lambda>j. Inr (JsonVal j)) \<and>
         fst (get_similar_homes net value_at self pid lid w) =
           bind_err (json_loads value_at (drop 4 (body_text r))) (\<lambda>j. Inr (JsonVal j)) \<and>
         fst (get_offer_insights net value_at self T R P w) =
           bind_err (json_loads value_at (drop 4 (body_text r))) (\<lambda>j. Inr (JsonVal j)) \<and>
         fst (get_best_schools net value_at self T R P w) =
           bind_err (json_loads value_at (drop 4 (body_text r))) (\<lambda>j. Inr (JsonVal j)) \<and>
         fst (get_walk_score_data net value_at self T R P w) =
           bind_err (json_loads value_at (drop 4 (body_text r))) (\<lambda>j. Inr (JsonVal j)) \<and>
         fst (get_region_trends net value_at self T R P w) =
           bind_err (json_loads value_at (drop 4 (body_text r))) (\<lambda>j. Inr (JsonVal j)) \<and>
         fst (get_flood_risk_data net value_at self T R w) =
           bind_err (json_loads value_at (drop 4 (body_text r))) (\<lambda>j. Inr (JsonVal j)) \<and>
         fst (get_market_insights_interlinks net value_at self T R w) =
           bind_err (json_loads value_at (drop 4 (body_text r))) (\<lambda>j. Inr (JsonVal j)) \<and>
         fst (get_env_risk_data net value_at self T R w) =
           bind_err (json_loads value_at (drop 4 (body_text r))) (\<lambda>j. Inr (JsonVal j)) \<and>
         fst (get_home_feature_trends net value_at self T R w) =
           bind_err (json_loads value_at (drop 4 (body_text r))) (\<lambda>j. Inr (JsonVal j)) \<and>
         fst (get_compete_score net value_at self T R w) =
           bind_err (json_loads value_at (drop 4 (body_text r))) (\<lambda>j. Inr (JsonVal j)) \<and>
         fst (get_nearby_compete_scores net value_at self T R w) =
           bind_err (json_loads value_at (drop 4 (body_text r))) (\<lambda>j. Inr (JsonVal j)) \<and>
         fst (get_property_images net value_at self pid lid w) =
           bind_err (json_loads value_at (drop 4 (body_text r))) (\<lambda>j.
             bind_err (image_urls j) (\<lambda>image_list. Inr (JsonVal (JArr image_list)))) \<and>
         fst (get_property_timeseries_estimate net value_at clock self pid lid w) =
           bind_err (json_loads value_at (drop 4 (body_text r))) (\<lambda>j.
             bind_err (label_estimates clock j) (\<lambda>ts. Inr (JsonVal (JObj ts)))) \<and>
         fst (primary_region net self url w) = Inr (ResponseObj r) \<and>
         fst (shared_region net self T kwargs w) = Inr (ResponseObj r) \<and>
         fst (get_search_results_table net self args w) = Inr (BytesObj (body_content r))"
proof -
  note oks = redfin_request_ok [OF net ok] request_property_data_ok [OF net ok]
    request_region_data_ok [OF net ok]
  have 1: "fst (search net value_at self query kwargs w) =
           bind_err (json_loads value_at (drop 4 (body_text r))) (\<lambda>j. Inr (JsonVal j))"
    by (simp add: search_def fst_and_then oks bind_err_def format_response_def)
  have 2: "fst (get_property_information net value_at self pid lid w) =
           bind_err (json_loads value_at (drop 4 (body_text r))) (\<lambda>j. Inr (JsonVal j))"
    by (simp add: get_property_information_def split_beta fst_and_then oks)
  have 3: "fst (get_similar_homes net value_at self pid lid w) =
           bind_err (json_loads value_at (drop 4 (body_text r))) (\<lambda>j. Inr (JsonVal j))"
    by (simp add: get_similar_homes_def split_beta fst_and_then oks)
  have 4: "fst (get_offer_insights net value_at self T R P w) =
           bind_err (json_loads value_at (drop 4 (body_text r))) (\<lambda>j. Inr (JsonVal j))"
    by (simp add: get_offer_insights_def fst_and_then oks)
  have 5: "fst (get_best_schools net value_at self T R P w) =
           bind_err (json_loads value_at (drop 4 (body_text r))) (\<lambda>j. Inr (JsonVal j))"
    by (simp add: get_best_schools_def fst_and_then oks)
  have 6: "fst (get_walk_score_data net value_at self T R P w) =
           bind_err (json_loads value_at (drop 4 (body_text r))) (\<lambda>j. Inr (JsonVal j))"
    by (simp add: get_walk_score_data_def fst_and_then oks)
  have 7: "fst (get_region_trends net value_at self T R P w) =
           bind_err (json_loads value_at (drop 4 (body_text r))) (\<lambda>j. Inr (JsonVal j))"
    by (simp add: get_region_trends_def fst_and_then oks)
  have 8: "fst (get_flood_risk_data net value_at self T R w) =
           bind_err (json_loads value_at (drop 4 (body_text r))) (\<lambda>j. Inr (JsonVal j))"
    by (simp add: get_flood_risk_data_def fst_and_then oks)
  have 9: "fst (get_market_insights_interlinks net value_at self T R w) =
           bind_err (json_loads value_at (drop 4 (body_text r))) (\<lambda>j. Inr (JsonVal j))"
    by (simp add: get_market_insights_interlinks_def fst_and_then oks)
  have 10: "fst (get_env_risk_data net value_at self T R w) =
           bind_err (json_loads value_at (drop 4 (body_text r))) (\<lambda>j. Inr (JsonVal j))"
    by (simp add: get_env_risk_data_def fst_and_then oks)
  have 11: "fst (get_home_feature_trends net value_at self T R w) =
           bind_err (json_loads value_at (drop 4 (body_text r))) (\<lambda>j. Inr (JsonVal j))"
    by (simp add: get_home_feature_trends_def fst_and_then oks)
  have 12: "fst (get_compete_score net value_at self T R w) =
           bind_err (json_loads value_at (drop 4 (body_text r))) (\<lambda>j. Inr (JsonVal j))"
    by (simp add: get_compete_score_def fst_and_then oks)
  have 13: "fst (get_nearby_compete_scores net value_at self T R w) =
           bind_err (json_loads value_at (drop 4 (body_text r))) (\<lambda>j. Inr (JsonVal j))"
    by (simp add: get_nearby_compete_scores_def fst_and_then oks)
  have 14: "fst (get_property_images net value_at self pid lid w) =
           bind_err (json_loads value_at (drop 4 (body_text r))) (\<lambda>j.
             bind_err (image_urls j) (\<lambda>image_list. Inr (JsonVal (JArr image_list))))"
    by (simp add: get_property_images_def split_beta fst_and_then oks)
  have 15: "fst (get_property_timeseries_estimate net value_at clock self pid lid w) =
           bind_err (json_loads value_at (drop 4 (body_text r))) (\<lambda>j.
             bind_err (label_estimates clock j) (\<lambda>ts. Inr (JsonVal (JObj ts))))"
    by (simp add: get_property_timeseries_estimate_def split_beta fst_and_then oks)
  have 16: "fst (primary_region net self url w) = Inr (ResponseObj r)"
    by (simp add: primary_region_def fst_and_then oks bind_err_def)
  have 17: "fst (shared_region net self T kwargs w) = Inr (ResponseObj r)"
    by (simp add: shared_region_def fst_and_then oks bind_err_def)
  have 18: "fst (get_search_results_table net self args w) = Inr (BytesObj (body_content r))"
    by (simp add: get_search_results_table_def Let_def fst_and_then oks bind_err_def)
  from 1 2 3 4 5 6 7 8 9 10 11 12 13 14 15 16 17 18 show ?thesis
    by (intro conjI)
qed

text \<open>
  C2, the examples: a service that answers 200 with the body \<open>{}&&{}\<close>.
\<close>

theorem methods_return_witness:
  "fst (search (example_net 200) example_scanner (init None) ''Albany'' [] module_world) =
     Inr (JsonVal (JObj [])) \<and>
   fst (get_region_trends (example_net 200) example_scanner (init None) (PInt 2) (PInt 8729)
          (PInt 1) module_world) = Inr (JsonVal (JObj [])) \<and>
   fst (shared_region (example_net 200) (init None) (PInt 8729) [] module_world) =
     Inr (ResponseObj (example_response 200 ''{}&&{}''))"
proof -
  have a: "\<forall>req. example_net 200 req = Inr (example_response 200 ''{}&&{}'')"
    by (simp add: example_net_def)
  have b: "\<not> (400 \<le> status_code (example_response 200 ''{}&&{}'') \<and>
              status_code (example_response 200 ''{}&&{}'') < 600)"
    by (simp add: example_response_def)
  have c: "json_loads example_scanner (drop 4 (body_text (example_response 200 ''{}&&{}''))) =
             Inr (JObj [])"
    by (simp add: example_response_def example_loads)
  from methods_return [OF a b, of example_scanner "init None" "''Albany''" "[]" module_world]
  have "fst (search (example_net 200) example_scanner (init None) ''Albany'' [] module_world) =
          bind_err (json_loads example_scanner (drop 4 (body_text (example_response 200 ''{}&&{}''))))
            (\<lambda>j. Inr (JsonVal j))"
    by blast
  moreover
  from methods_return [OF a b, where value_at = example_scanner and self = "init None"
      and w = module_world and T = "PInt 2" and R = "PInt 8729" and P = "PInt 1"]
  have "fst (get_region_trends (example_net 200) example_scanner (init None) (PInt 2) (PInt 8729)
          (PInt 1) module_world) =
          bind_err (json_loads example_scanner (drop 4 (body_text (example_response 200 ''{}&&{}''))))
            (\<lambda>j. Inr (JsonVal j))"
    by blast
  moreover
  from methods_return [OF a b, where self = "init None" and w = module_world and T = "PInt 8729"
      and kwargs = "[]"]
  have "fst (shared_region (example_net 200) (init None) (PInt 8729) [] module_world) =
          Inr (ResponseObj (example_response 200 ''{}&&{}''))"
    by blast
  ultimately show ?thesis
    by (simp add: c bind_err_def)
qed

text \<open>
  C2 as stated fails: \<open>primary_region\<close> returns the response object, not the value its
  body decodes to.
\<close>

theorem primary_region_raw_counterexample:
  "fst (primary_region (example_net 200) (init None) ''/NY/Albany/home/1'' module_world) =
     Inr (ResponseObj (example_response 200 ''{}&&{}'')) \<and>
   json_loads example_scanner (drop 4 (body_text (example_response 200 ''{}&&{}''))) = Inr (JObj []) \<and>
   ResponseObj (example_response 200 ''{}&&{}'') \<noteq> JsonVal (JObj [])"
  by (simp add: primary_region_def fst_and_then redfin_request_result bind_err_def example_net_def
      example_response_def example_loads)

section \<open>Month arithmetic\<close>

lemma rd_fix_small: "\<bar>months rd\<bar> \<le> 11 \<Longrightarrow> rd_fix rd = rd"
  by (simp add: rd_fix_def)

lemma relativedelta_months_sum:
  "12 * years (relativedelta_months k) + months (relativedelta_months k) = k \<and>
   \<bar>months (relativedelta_months k)\<bar> \<le> 11"
proof (cases "11 < \<bar>k\<bar>")
  case False
  then show ?thesis by (simp add: relativedelta_months_def rd_fix_def)
next
  case True
  have ks: "k * sgn k = \<bar>k\<bar>" by (simp add: abs_sgn mult.commute)
  have dist: "12 * (a * s) + b * s = (12 * a + b) * s" for a b s :: int
    by (simp add: algebra_simps)
  have "12 * (\<bar>k\<bar> div 12 * sgn k) + \<bar>k\<bar> mod 12 * sgn k = (12 * (\<bar>k\<bar> div 12) + \<bar>k\<bar> mod 12) * sgn k"
    by (rule dist)
  also have "\<dots> = \<bar>k\<bar> * sgn k" by simp
  also have "\<dots> = k" by (simp add: sgn_if)
  finally have 1: "12 * (\<bar>k\<bar> div 12 * sgn k) + \<bar>k\<bar> mod 12 * sgn k = k" .
  have "\<bar>k\<bar> mod 12 \<le> 11"
    using pos_mod_bound [of 12 "\<bar>k\<bar>"] by linarith
  then have 2: "\<bar>\<bar>k\<bar> mod 12 * sgn k\<bar> \<le> 11"
    using True by (simp add: abs_mult abs_sgn_eq)
  from True 1 2 show ?thesis
    by (simp add: relativedelta_months_def rd_fix_def Let_def ks)
qed

lemma rd_neg_relativedelta_months:
  "rd_neg (relativedelta_months k) =
     \<lparr>years = - years (relativedelta_months k), months = - months (relativedelta_months k)\<rparr>"
  using relativedelta_months_sum [of k] by (simp add: rd_neg_def rd_fix_small)

lemma div_mod_unique:
  fixes t :: int
  shows "t = 12 * q + r \<Longrightarrow> 0 \<le> r \<Longrightarrow> r < 12 \<Longrightarrow> t div 12 = q \<and> t mod 12 = r"
  by (simp add: div_pos_pos_trivial)

lemma rd_rsub_months:
  assumes "1 \<le> month today" "month today \<le> 12"
  shows "rd_rsub today (relativedelta_months k) =
           (if 1 \<le> (month_number today - k) div 12 \<and> (month_number today - k) div 12 \<le> 9999
            then Inr (nth_month (month_number today - k)) else Inl ValueError)"
proof -
  define Y where "Y = years (relativedelta_months k)"
  define M where "M = months (relativedelta_months k)"
  have k: "12 * Y + M = k" and M: "\<bar>M\<bar> \<le> 11"
    using relativedelta_months_sum [of k] by (simp_all add: Y_def M_def)
  define m where "m = month today - M"
  define y1 where "y1 = (if 12 < m then year today - Y + 1 else if m < 1 then year today - Y - 1 else year today - Y)"
  define m1 where "m1 = (if 12 < m then m - 12 else if m < 1 then m + 12 else m)"
  have r: "rd_rsub today (relativedelta_months k) =
             (if 1 \<le> y1 \<and> y1 \<le> 9999 then Inr \<lparr>year = y1, month = m1\<rparr> else Inl ValueError)"
    using assms M
    by (auto simp: rd_rsub_def rd_neg_relativedelta_months rd_radd_def Let_def y1_def m1_def m_def
        Y_def M_def)
  have "month_number today - k = 12 * y1 + (m1 - 1)" "0 \<le> m1 - 1" "m1 - 1 < 12"
    using assms M k by (auto simp: month_number_def y1_def m1_def m_def)
  from div_mod_unique [OF this]
  have "(month_number today - k) div 12 = y1" "(month_number today - k) mod 12 + 1 = m1"
    by simp_all
  with r show ?thesis by (simp add: nth_month_def)
qed

lemma map_err_ok: "(\<And>x. x \<in> set xs \<Longrightarrow> f x = Inr (g x)) \<Longrightarrow> map_err f xs = Inr (map g xs)"
  by (induction xs) (simp_all add: bind_err_def)

lemma length_month_range: "length month_range = 61"
  by (simp add: month_range_def)

lemma nth_month_range: "k < 61 \<Longrightarrow> month_range ! k = int k - 1"
proof -
  assume k: "k < 61"
  have "[- 1..59] ! k = - 1 + int k"
    using k by (intro nth_upto) simp
  then show ?thesis by (simp add: month_range_def)
qed

lemma month_list_clock_labels:
  assumes valid: "\<forall>k<61. 1 \<le> month (clock k) \<and> month (clock k) \<le> 12 \<and>
                        6 \<le> year (clock k) \<and> year (clock k) \<le> 9998"
  shows "month_list clock = Inr (clock_labels clock)"
proof -
  let ?f = "\<lambda>(k, i). bind_err (rd_rsub (clock k) (relativedelta_months (i - 1)))
                          (\<lambda>d. Inr (strftime_b_y d))"
  let ?g = "\<lambda>(k, i). strftime_b_y (nth_month (month_number (clock k) - (i - 1)))"
  have each: "?f p = Inr (?g p)" if "p \<in> set (enumerate 0 month_range)" for p
  proof -
    obtain k i where p: "p = (k, i)" by (cases p)
    from that p have k: "k < 61" and i: "i = int k - 1"
      by (auto simp: in_set_enumerate_eq length_month_range nth_month_range)
    from valid k have v: "1 \<le> month (clock k)" "month (clock k) \<le> 12"
      "6 \<le> year (clock k)" "year (clock k) \<le> 9998"
      by auto
    with k i have "12 \<le> month_number (clock k) - (i - 1)"
      "month_number (clock k) - (i - 1) < 120000"
      by (simp_all add: month_number_def)
    then have "1 \<le> (month_number (clock k) - (i - 1)) div 12"
      "(month_number (clock k) - (i - 1)) div 12 \<le> 9999"
      by presburger+
    then show ?thesis
      using v by (simp add: p rd_rsub_months bind_err_def)
  qed
  have "map_err ?f (enumerate 0 month_range) = Inr (map ?g (enumerate 0 month_range))"
    by (rule map_err_ok) (rule each)
  then have "month_list clock = Inr (rev (map ?g (enumerate 0 month_range)))"
    unfolding month_list_def by (simp add: bind_err_def)
  moreover have "rev (map ?g (enumerate 0 month_range)) = clock_labels clock"
  proof (rule nth_equalityI)
    show "length (rev (map ?g (enumerate 0 month_range))) = length (clock_labels clock)"
      by (simp add: length_month_range clock_labels_def)
  next
    fix k assume "k < length (rev (map ?g (enumerate 0 month_range)))"
    then have k: "k < 61" by (simp add: length_month_range)
    have "rev (map ?g (enumerate 0 month_range)) ! k = map ?g (enumerate 0 month_range) ! (60 - k)"
      using k by (simp add: rev_nth length_month_range)
    also have "\<dots> = ?g (enumerate 0 month_range ! (60 - k))"
      using k by (intro nth_map) (simp add: length_month_range)
    also have "enumerate 0 month_range ! (60 - k) = (60 - k, int (60 - k) - 1)"
      using k by (simp add: nth_enumerate_eq length_month_range nth_month_range)
    also have "?g (60 - k, int (60 - k) - 1) = clock_labels clock ! k"
      using k by (simp add: clock_labels_def of_nat_diff algebra_simps)
    finally show "rev (map ?g (enumerate 0 month_range)) ! k = clock_labels clock ! k" .
  qed
  ultimately show ?thesis by simp
qed

lemma clock_labels_same_month:
  assumes "\<forall>k<61. year (clock k) = year today \<and> month (clock k) = month today"
  shows "clock_labels clock = month_labels today"
proof -
  have "month_number (clock (60 - k)) = month_number today" if "k < 61" for k
    using assms that by (simp add: month_number_def)
  then show ?thesis
    by (simp add: clock_labels_def month_labels_def)
qed

lemma length_clock_labels: "length (clock_labels clock) = 61"
  by (simp add: clock_labels_def)

section \<open>The month labels are distinct\<close>

lemma digit_char_inj: "a < 10 \<Longrightarrow> b < 10 \<Longrightarrow> digit_char a = digit_char b \<Longrightarrow> a = b"
proof -
  assume a: "a < 10" and b: "b < 10" and eq: "digit_char a = digit_char b"
  have d: "distinct ''0123456789''" by simp
  from a b eq show "a = b"
    unfolding digit_char_def using nth_eq_iff_index_eq [OF d, of a b] by simp
qed

lemma two_digits_inj:
  assumes "0 \<le> a" "a < 100" "0 \<le> b" "b < 100" "two_digits a = two_digits b"
  shows "a = b"
proof -
  from assms(1-4) have "a div 10 < 10" "b div 10 < 10" "a mod 10 < 10" "b mod 10 < 10"
    by presburger+
  then have q: "nat (a div 10) < 10" "nat (b div 10) < 10"
    and r: "nat (a mod 10) < 10" "nat (b mod 10) < 10"
    by simp_all
  from assms(5) have "digit_char (nat (a div 10)) = digit_char (nat (b div 10))"
    "digit_char (nat (a mod 10)) = digit_char (nat (b mod 10))"
    by (simp_all add: two_digits_def)
  with q r have "nat (a div 10) = nat (b div 10)" "nat (a mod 10) = nat (b mod 10)"
    by (auto dest: digit_char_inj)
  with assms have "a div 10 = b div 10" "a mod 10 = b mod 10"
    by (simp_all add: nat_eq_iff pos_imp_zdiv_nonneg_iff)
  then show ?thesis
    by (metis mult_div_mod_eq)
qed

lemma month_abbr_length: "1 \<le> m \<Longrightarrow> m \<le> 12 \<Longrightarrow> length (month_abbr m) = 3"
proof -
  assume m: "1 \<le> m" "m \<le> 12"
  have all3: "\<forall>s \<in> set [''Jan'', ''Feb'', ''Mar'', ''Apr'', ''May'', ''Jun'',
      ''Jul'', ''Aug'', ''Sep'', ''Oct'', ''Nov'', ''Dec'']. length s = 3"
    by simp
  from m have "nat (m - 1) < 12" by simp
  then have "month_abbr m \<in> set [''Jan'', ''Feb'', ''Mar'', ''Apr'', ''May'', ''Jun'',
      ''Jul'', ''Aug'', ''Sep'', ''Oct'', ''Nov'', ''Dec'']"
    unfolding month_abbr_def by (intro nth_mem) simp
  with all3 show ?thesis by blast
qed

lemma month_abbr_inj:
  assumes "1 \<le> a" "a \<le> 12" "1 \<le> b" "b \<le> 12" "month_abbr a = month_abbr b"
  shows "a = b"
proof -
  have d: "distinct [''Jan'', ''Feb'', ''Mar'', ''Apr'', ''May'', ''Jun'',
      ''Jul'', ''Aug'', ''Sep'', ''Oct'', ''Nov'', ''Dec'']"
    by simp
  from assms have "nat (a - 1) < 12" "nat (b - 1) < 12" by simp_all
  with assms(5) have "nat (a - 1) = nat (b - 1)"
    unfolding month_abbr_def using nth_eq_iff_index_eq [OF d, of "nat (a - 1)" "nat (b - 1)"]
    by simp
  with assms show ?thesis by simp
qed

lemma window_arith:
  fixes s t :: int
  assumes "s mod 12 = t mod 12" "(s div 12) mod 100 = (t div 12) mod 100" "\<bar>s - t\<bar> \<le> 60"
  shows "s = t"
proof -
  define qs rs qt rt where "qs = s div 12" and "rs = s mod 12" and "qt = t div 12" and "rt = t mod 12"
  define d where "d = qs - qt"
  have s: "s = 12 * qs + rs" and t: "t = 12 * qt + rt"
    by (simp_all add: qs_def rs_def qt_def rt_def)
  have "rs = rt"
    using assms(1) by (simp add: rs_def rt_def)
  with s t have st: "s - t = 12 * d"
    unfolding d_def by presburger
  with assms(3) have small: "\<bar>d\<bar> \<le> 5" by linarith
  from assms(2) have "100 dvd d"
    unfolding d_def qs_def qt_def by (simp add: mod_eq_dvd_iff)
  then have "d = 0"
    using small dvd_imp_le_int [of d 100] by auto
  with st show ?thesis by simp
qed

lemma strftime_b_y_inj:
  assumes "strftime_b_y (nth_month s) = strftime_b_y (nth_month t)" "\<bar>s - t\<bar> \<le> 60"
  shows "s = t"
proof -
  have ms: "1 \<le> s mod 12 + 1" "s mod 12 + 1 \<le> 12" and mt: "1 \<le> t mod 12 + 1" "t mod 12 + 1 \<le> 12"
    by simp_all
  have len: "length (month_abbr (s mod 12 + 1)) = length (month_abbr (t mod 12 + 1))"
    using ms mt by (simp add: month_abbr_length)
  from assms(1) have eq: "month_abbr (s mod 12 + 1) @ '' '' @ two_digits (s div 12 mod 100) =
      month_abbr (t mod 12 + 1) @ '' '' @ two_digits (t div 12 mod 100)"
    by (simp add: strftime_b_y_def nth_month_def)
  from eq len have 1: "month_abbr (s mod 12 + 1) = month_abbr (t mod 12 + 1)"
    and 2: "two_digits (s div 12 mod 100) = two_digits (t div 12 mod 100)"
    by simp_all
  from month_abbr_inj [OF ms mt 1] have m: "s mod 12 = t mod 12" by simp
  have "0 \<le> s div 12 mod 100" "s div 12 mod 100 < 100" "0 \<le> t div 12 mod 100" "t div 12 mod 100 < 100"
    by simp_all
  from two_digits_inj [OF this 2] have y: "s div 12 mod 100 = t div 12 mod 100" .
  from window_arith [OF m y assms(2)] show ?thesis .
qed

lemma distinct_month_labels: "distinct (month_labels today)"
proof -
  have "inj_on (\<lambda>k. strftime_b_y (nth_month (month_number today - 58 + int k))) (set [0..<61])"
  proof (rule inj_onI)
    fix a b
    assume a: "a \<in> set [0..<61]" and b: "b \<in> set [0..<61]"
      and eq: "strftime_b_y (nth_month (month_number today - 58 + int a)) =
               strftime_b_y (nth_month (month_number today - 58 + int b))"
    from a b have "\<bar>(month_number today - 58 + int a) - (month_number today - 58 + int b)\<bar> \<le> 60"
      by simp
    from strftime_b_y_inj [OF eq this] show "a = b" by simp
  qed
  then show ?thesis
    by (simp add: month_labels_def distinct_map)
qed

lemma length_month_labels: "length (month_labels today) = 61"
  by (simp add: month_labels_def)

section \<open>The time series\<close>

lemma update_fresh: "k \<notin> fst ` set al \<Longrightarrow> AList.update k v al = al @ [(k, v)]"
  by (induction al) auto

lemma ts_step_Inr:
  "i < length labels \<Longrightarrow> i < length xs \<Longrightarrow>
   ts_step labels (JArr xs) i (Inr ts) = Inr (AList.update (labels ! i) (xs ! i) ts)"
  by (simp add: ts_step_def bind_err_def)

lemma ts_step_over: "length labels \<le> i \<Longrightarrow> ts_step labels est i (Inr ts) = Inl IndexError"
  by (simp add: ts_step_def bind_err_def)

lemma fold_ts_step_Inl: "fold (ts_step labels est) ns (Inl e) = Inl e"
  by (induction ns) (simp_all add: ts_step_def bind_err_def)

lemma nth_notin_take: "distinct xs \<Longrightarrow> n < length xs \<Longrightarrow> xs ! n \<notin> set (take n xs)"
  by (auto simp: in_set_conv_nth nth_eq_iff_index_eq)

lemma fold_ts_step_zip:
  assumes "distinct labels"
  shows "n \<le> length labels \<Longrightarrow> n \<le> length xs \<Longrightarrow>
         fold (ts_step labels (JArr xs)) [0..<n] (Inr []) = Inr (zip (take n labels) (take n xs))"
proof (induction n)
  case 0
  then show ?case by simp
next
  case (Suc n)
  then have n: "n < length labels" "n < length xs" by simp_all
  have fresh: "labels ! n \<notin> fst ` set (zip (take n labels) (take n xs))"
    using nth_notin_take [OF assms n(1)] by (auto dest: set_zip_leftD)
  have "zip (take (Suc n) labels) (take (Suc n) xs) =
          zip (take n labels) (take n xs) @ [(labels ! n, xs ! n)]"
    using n by (simp add: take_Suc_conv_app_nth)
  with Suc.IH n fresh show ?case
    by (simp add: ts_step_Inr update_fresh)
qed

lemma fold_ts_step_overflow:
  assumes "length labels < n" "n \<le> length xs"
  shows "fold (ts_step labels (JArr xs)) [0..<n] (Inr []) = Inl IndexError"
proof -
  have ok: "m \<le> length labels \<Longrightarrow>
            \<exists>ts. fold (ts_step labels (JArr xs)) [0..<m] (Inr []) = Inr ts" for m
  proof (induction m)
    case 0
    then show ?case by simp
  next
    case (Suc m)
    then obtain ts where "fold (ts_step labels (JArr xs)) [0..<m] (Inr []) = Inr ts"
      by auto
    with Suc.prems assms show ?case
      by (simp add: ts_step_Inr)
  qed
  from ok [of "length labels"]
  obtain ts where ts: "fold (ts_step labels (JArr xs)) [0..<length labels] (Inr []) = Inr ts"
    by auto
  have split: "[0..<n] = [0..<length labels] @ length labels # [Suc (length labels)..<n]"
    using assms(1)
    by (metis less_imp_le_nat upt_add_eq_append le_add_diff_inverse upt_conv_Cons zero_le
        add.left_neutral)
  show ?thesis
    unfolding split by (simp add: ts ts_step_over fold_ts_step_Inl)
qed

lemma constant_loads: "s \<noteq> [] \<Longrightarrow> \<not> is_json_ws (hd s) \<Longrightarrow> json_loads (constant_scanner j) s = Inr j"
  by (cases s) (simp_all add: json_loads_def raw_decode_def scan_once_def whitespace_end_def
      constant_scanner_def)

lemma fold_ts_step_keys:
  "n \<le> length labels \<Longrightarrow> n \<le> length xs \<Longrightarrow>
   \<exists>ts. fold (ts_step labels (JArr xs)) [0..<n] (Inr []) = Inr ts \<and>
        distinct (map fst ts) \<and> set (map fst ts) = set (take n labels)"
proof (induction n)
  case 0
  then show ?case by simp
next
  case (Suc n)
  then have n: "n < length labels" "n < length xs" by simp_all
  from Suc obtain ts where ts: "fold (ts_step labels (JArr xs)) [0..<n] (Inr []) = Inr ts"
    and d: "distinct (map fst ts)" and s: "set (map fst ts) = set (take n labels)"
    by auto
  have "set (map fst (AList.update (labels ! n) (xs ! n) ts)) = set (take (Suc n) labels)"
    using s n by (simp add: dom_update take_Suc_conv_app_nth)
  with ts d n show ?case
    by (simp add: ts_step_Inr distinct_update)
qed

lemma label_estimates_clock:
  assumes "\<forall>k<61. 1 \<le> month (clock k) \<and> month (clock k) \<le> 12 \<and>
                  6 \<le> year (clock k) \<and> year (clock k) \<le> 9998"
    and "map_of d ''payload'' = Some (JObj p)"
    and "map_of p ''propertyTimeSeries'' = Some (JArr est)"
  shows "label_estimates clock (JObj d) =
           fold (ts_step (clock_labels clock) (JArr est)) [0..<length est] (Inr [])"
  using assms(2,3)
  by (simp add: label_estimates_def bind_err_def month_list_clock_labels [OF assms(1)])

lemma timeseries_result:
  assumes valid: "\<forall>k<61. 1 \<le> month (clock k) \<and> month (clock k) \<le> 12 \<and>
                        6 \<le> year (clock k) \<and> year (clock k) \<le> 9998"
    and net: "\<forall>req. net req = Inr r"
    and ok: "\<not> (400 \<le> status_code r \<and> status_code r < 600)"
    and decoded: "json_loads value_at (drop 4 (body_text r)) = Inr (JObj d)"
    and payload: "map_of d ''payload'' = Some (JObj p)"
    and series: "map_of p ''propertyTimeSeries'' = Some (JArr est)"
  shows "fst (get_property_timeseries_estimate net value_at clock self pid lid w) =
           bind_err (fold (ts_step (clock_labels clock) (JArr est)) [0..<length est] (Inr []))
             (\<lambda>ts. Inr (JsonVal (JObj ts)))"
  using decoded
  by (simp add: get_property_timeseries_estimate_def split_beta fst_and_then
      request_property_data_ok [OF net ok] label_estimates_clock [OF valid payload series]
      bind_err_def)

text \<open>
  C3, as the code has it. When every read of the clock made while the labels are
  generated falls in one calendar month, \<open>month_list\<close> holds exactly 61 labels \<open>Mon YY\<close>,
  pairwise distinct, oldest first: from the month 58 months before that month to the
  month 2 months after it (the generation starts two months after the current month and
  walks back). For an estimate list of length \<open>n \<le> 61\<close> the method then returns the
  dictionary that pairs the first \<open>n\<close> labels, in order, with the \<open>n\<close> estimates, in order:
  \<open>n\<close> entries, and the labels do not depend on \<open>n\<close>.
\<close>

theorem timeseries_zip:
  assumes "1 \<le> month today" "month today \<le> 12" "6 \<le> year today" "year today \<le> 9998"
    and "\<forall>k<61. year (clock k) = year today \<and> month (clock k) = month today"
    and "\<forall>req. net req = Inr r"
    and "\<not> (400 \<le> status_code r \<and> status_code r < 600)"
    and "json_loads value_at (drop 4 (body_text r)) = Inr (JObj d)"
    and "map_of d ''payload'' = Some (JObj p)"
    and "map_of p ''propertyTimeSeries'' = Some (JArr est)"
    and "length est \<le> 61"
  shows "month_list clock = Inr (month_labels today) \<and>
         length (month_labels today) = 61 \<and>
         distinct (month_labels today) \<and>
         fst (get_property_timeseries_estimate net value_at clock self pid lid w) =
           Inr (JsonVal (JObj (zip (take (length est) (month_labels today)) est))) \<and>
         length (zip (take (length est) (month_labels today)) est) = length est \<and>
         map fst (zip (take (length est) (month_labels today)) est) =
           take (length est) (month_labels today) \<and>
         map snd (zip (take (length est) (month_labels today)) est) = est"
proof -
  have valid: "\<forall>k<61. 1 \<le> month (clock k) \<and> month (clock k) \<le> 12 \<and>
                      6 \<le> year (clock k) \<and> year (clock k) \<le> 9998"
    using assms(1-5) by simp
  have labels: "clock_labels clock = month_labels today"
    using assms(5) by (rule clock_labels_same_month)
  have "fold (ts_step (month_labels today) (JArr est)) [0..<length est] (Inr []) =
          Inr (zip (take (length est) (month_labels today)) est)"
    using fold_ts_step_zip [OF distinct_month_labels, of "length est" today est] assms(11)
    by (simp add: length_month_labels)
  then have "fst (get_property_timeseries_estimate net value_at clock self pid lid w) =
           Inr (JsonVal (JObj (zip (take (length est) (month_labels today)) est)))"
    using timeseries_result [OF valid assms(6-10), of self pid lid w]
    by (simp add: labels bind_err_def)
  moreover have "length (take (length est) (month_labels today)) = length est"
    using assms(11) by (simp add: length_month_labels)
  moreover have "month_list clock = Inr (month_labels today)"
    using month_list_clock_labels [OF valid] by (simp add: labels)
  ultimately show ?thesis
    by (simp add: length_month_labels distinct_month_labels)
qed

lemma example_labels: "take (Suc (Suc 0)) (month_labels example_today) = [''Jan 22'', ''Feb 22'']"
  by (simp add: month_labels_def take_map example_today_def month_number_def nth_month_def
      strftime_b_y_def month_abbr_def two_digits_def digit_char_def upt_rec)

text \<open>
  C3, the example: two estimates, asked for in November 2026, are labelled January and
  February 2022.
\<close>

theorem timeseries_zip_witness:
  "fst (get_property_timeseries_estimate (example_net 200)
          (constant_scanner (example_timeseries [JInt 412000, JNull])) example_clock
          (init None) (PInt 7) (PStr '''') module_world) =
     Inr (JsonVal (JObj [(''Jan 22'', JInt 412000), (''Feb 22'', JNull)]))"
proof -
  have today: "1 \<le> month example_today" "month example_today \<le> 12"
    "6 \<le> year example_today" "year example_today \<le> 9998"
    by (simp_all add: example_today_def)
  have same: "\<forall>k<61. year (example_clock k) = year example_today \<and>
                     month (example_clock k) = month example_today"
    by (simp add: example_clock_def)
  have net: "\<forall>req. example_net 200 req = Inr (example_response 200 ''{}&&{}'')"
    by (simp add: example_net_def)
  have ok: "\<not> (400 \<le> status_code (example_response 200 ''{}&&{}'') \<and>
               status_code (example_response 200 ''{}&&{}'') < 600)"
    by (simp add: example_response_def)
  have decoded: "json_loads (constant_scanner (example_timeseries [JInt 412000, JNull]))
                   (drop 4 (body_text (example_response 200 ''{}&&{}''))) =
                 Inr (JObj [(''payload'', JObj [(''propertyTimeSeries'', JArr [JInt 412000, JNull])])])"
    by (simp add: example_response_def constant_loads is_json_ws_def example_timeseries_def)
  have payload: "map_of [(''payload'', JObj [(''propertyTimeSeries'', JArr [JInt 412000, JNull])])]
                   ''payload'' = Some (JObj [(''propertyTimeSeries'', JArr [JInt 412000, JNull])])"
    by simp
  have series: "map_of [(''propertyTimeSeries'', JArr [JInt 412000, JNull])] ''propertyTimeSeries'' =
                  Some (JArr [JInt 412000, JNull])"
    by simp
  have len: "length [JInt 412000, JNull] \<le> 61"
    by simp
  from timeseries_zip [OF today same net ok decoded payload series len, of "init None" "PInt 7"
      "PStr ''''" module_world]
  show ?thesis
    by (simp add: example_labels)
qed

lemma rollover_labels_repeat:
  "clock_labels rollover_clock ! 58 = clock_labels rollover_clock ! 59"
  by (simp add: clock_labels_def rollover_clock_def month_number_def)

lemma not_distinct_rollover: "\<not> distinct (clock_labels rollover_clock)"
proof
  assume "distinct (clock_labels rollover_clock)"
  from nth_eq_iff_index_eq [OF this, of 58 59] rollover_labels_repeat
  show False by (simp add: length_clock_labels)
qed

text \<open>
  C3 as stated fails. In November 2026 the generation starts at January 2027, two months
  after the current month, so the newest label is \<open>Jan 27\<close>; one month from the current
  month would be \<open>Dec 26\<close> or \<open>Oct 26\<close>. And when the month ends between two reads of the
  clock, a label is generated twice: the labels are not distinct, and 61 estimates give
  fewer than 61 entries.
\<close>

theorem month_list_start_counterexample:
  "rd_rsub (example_clock 0) (relativedelta_months (hd month_range - 1)) =
     Inr \<lparr>year = 2027, month = 1\<rparr> \<and>
   map_sum id last (month_list example_clock) = Inr ''Jan 27'' \<and>
   strftime_b_y \<lparr>year = 2026, month = 12\<rparr> = ''Dec 26'' \<and>
   strftime_b_y \<lparr>year = 2026, month = 10\<rparr> = ''Oct 26'' \<and>
   map_sum id distinct (month_list rollover_clock) = Inr False \<and>
   (\<exists>ts. fst (get_property_timeseries_estimate (example_net 200)
            (constant_scanner (example_timeseries (replicate 61 JNull))) rollover_clock
            (init None) (PInt 7) (PStr '''') module_world) = Inr (JsonVal (JObj ts)) \<and>
         length ts < 61)"
proof -
  have today: "1 \<le> month example_today" "month example_today \<le> 12"
    "6 \<le> year example_today" "year example_today \<le> 9998"
    by (simp_all add: example_today_def)
  have valid: "\<forall>k<61. 1 \<le> month (example_clock k) \<and> month (example_clock k) \<le> 12 \<and>
                      6 \<le> year (example_clock k) \<and> year (example_clock k) \<le> 9998"
    by (simp add: example_clock_def example_today_def)
  have same: "\<forall>k<61. year (example_clock k) = year example_today \<and>
                     month (example_clock k) = month example_today"
    by (simp add: example_clock_def)
  have rvalid: "\<forall>k<61. 1 \<le> month (rollover_clock k) \<and> month (rollover_clock k) \<le> 12 \<and>
                       6 \<le> year (rollover_clock k) \<and> year (rollover_clock k) \<le> 9998"
    by (simp add: rollover_clock_def)
  have "hd month_range = - 1"
    by (simp add: month_range_def upto.simps)
  moreover have "rd_rsub example_today (relativedelta_months (- 1 - 1)) =
     Inr \<lparr>year = 2027, month = 1\<rparr>"
    unfolding rd_rsub_months [OF today(1,2)]
    by (simp add: month_number_def nth_month_def example_today_def)
  ultimately have 1: "rd_rsub (example_clock 0) (relativedelta_months (hd month_range - 1)) =
     Inr \<lparr>year = 2027, month = 1\<rparr>"
    by (simp add: example_clock_def)
  have "last (month_labels example_today) = ''Jan 27''"
    by (simp add: month_labels_def last_map example_today_def month_number_def nth_month_def
      strftime_b_y_def month_abbr_def two_digits_def digit_char_def)
  then have 2: "map_sum id last (month_list example_clock) = Inr ''Jan 27''"
    by (simp add: month_list_clock_labels [OF valid] clock_labels_same_month [OF same])
  have 3: "strftime_b_y \<lparr>year = 2026, month = 12\<rparr> = ''Dec 26''"
    "strftime_b_y \<lparr>year = 2026, month = 10\<rparr> = ''Oct 26''"
    by (simp_all add: strftime_b_y_def month_abbr_def two_digits_def digit_char_def)
  have 4: "map_sum id distinct (month_list rollover_clock) = Inr False"
    by (simp add: month_list_clock_labels [OF rvalid] not_distinct_rollover)
  have net: "\<forall>req. example_net 200 req = Inr (example_response 200 ''{}&&{}'')"
    by (simp add: example_net_def)
  have ok: "\<not> (400 \<le> status_code (example_response 200 ''{}&&{}'') \<and>
               status_code (example_response 200 ''{}&&{}'') < 600)"
    by (simp add: example_response_def)
  have decoded: "json_loads (constant_scanner (example_timeseries (replicate 61 JNull)))
                   (drop 4 (body_text (example_response 200 ''{}&&{}''))) =
                 Inr (JObj [(''payload'', JObj [(''propertyTimeSeries'', JArr (replicate 61 JNull))])])"
    by (simp add: example_response_def constant_loads is_json_ws_def example_timeseries_def)
  have payload: "map_of [(''payload'', JObj [(''propertyTimeSeries'', JArr (replicate 61 JNull))])]
                   ''payload'' = Some (JObj [(''propertyTimeSeries'', JArr (replicate 61 JNull))])"
    by simp
  have series: "map_of [(''propertyTimeSeries'', JArr (replicate 61 JNull))] ''propertyTimeSeries'' =
                  Some (JArr (replicate 61 JNull))"
    by simp
  from fold_ts_step_keys [of 61 "clock_labels rollover_clock" "replicate 61 JNull"]
  obtain ts where ts: "fold (ts_step (clock_labels rollover_clock) (JArr (replicate 61 JNull)))
                         [0..<61] (Inr []) = Inr ts"
    and d: "distinct (map fst ts)"
    and s: "set (map fst ts) = set (clock_labels rollover_clock)"
    by (auto simp: length_clock_labels)
  have "length ts = card (set (map fst ts))"
    using distinct_card [OF d] by simp
  also have "\<dots> = card (set (clock_labels rollover_clock))"
    by (simp only: s)
  also have "\<dots> < length (clock_labels rollover_clock)"
    using not_distinct_rollover card_length [of "clock_labels rollover_clock"]
      card_distinct [of "clock_labels rollover_clock"]
    by linarith
  finally have short: "length ts < 61"
    by (simp add: length_clock_labels)
  have "fst (get_property_timeseries_estimate (example_net 200)
            (constant_scanner (example_timeseries (replicate 61 JNull))) rollover_clock
            (init None) (PInt 7) (PStr '''') module_world) = Inr (JsonVal (JObj ts))"
    using timeseries_result [OF rvalid net ok decoded payload series, of "init None" "PInt 7"
        "PStr ''''" module_world] ts
    by (simp add: bind_err_def)
  with short have 5: "\<exists>ts. fst (get_property_timeseries_estimate (example_net 200)
            (constant_scanner (example_timeseries (replicate 61 JNull))) rollover_clock
            (init None) (PInt 7) (PStr '''') module_world) = Inr (JsonVal (JObj ts)) \<and>
         length ts < 61"
    by blast
  from 1 2 3 4 5 show ?thesis by simp
qed

text \<open>
  C10. For an estimate list of more than 61 elements the method raises \<open>IndexError\<close>, from
  the read of the label list at index 61, and returns no dictionary. This holds whatever
  months the reads of the clock fall in.
\<close>

theorem timeseries_overflow:
  assumes "\<forall>k<61. 1 \<le> month (clock k) \<and> month (clock k) \<le> 12 \<and>
                  6 \<le> year (clock k) \<and> year (clock k) \<le> 9998"
    and "\<forall>req. net req = Inr r"
    and "\<not> (400 \<le> status_code r \<and> status_code r < 600)"
    and "json_loads value_at (drop 4 (body_text r)) = Inr (JObj d)"
    and "map_of d ''payload'' = Some (JObj p)"
    and "map_of p ''propertyTimeSeries'' = Some (JArr est)"
    and "61 < length est"
  shows "fst (get_property_timeseries_estimate net value_at clock self pid lid w) = Inl IndexError"
  using timeseries_result [OF assms(1-6), of self pid lid w]
    fold_ts_step_overflow [of "clock_labels clock" "length est" est] assms(7)
  by (simp add: length_clock_labels bind_err_def)

text \<open>
  C10, the example: 62 estimates, with a clock that passes the end of a month.
\<close>

theorem timeseries_overflow_witness:
  "fst (get_property_timeseries_estimate (example_net 200)
          (constant_scanner (example_timeseries (replicate 62 JNull))) rollover_clock
          (init None) (PInt 7) (PStr '''') module_world) = Inl IndexError"
proof -
  have valid: "\<forall>k<61. 1 \<le> month (rollover_clock k) \<and> month (rollover_clock k) \<le> 12 \<and>
                      6 \<le> year (rollover_clock k) \<and> year (rollover_clock k) \<le> 9998"
    by (simp add: rollover_clock_def)
  have net: "\<forall>req. example_net 200 req = Inr (example_response 200 ''{}&&{}'')"
    by (simp add: example_net_def)
  have ok: "\<not> (400 \<le> status_code (example_response 200 ''{}&&{}'') \<and>
               status_code (example_response 200 ''{}&&{}'') < 600)"
    by (simp add: example_response_def)
  have decoded: "json_loads (constant_scanner (example_timeseries (replicate 62 JNull)))
                   (drop 4 (body_text (example_response 200 ''{}&&{}''))) =
                 Inr (JObj [(''payload'', JObj [(''propertyTimeSeries'', JArr (replicate 62 JNull))])])"
    by (simp add: example_response_def constant_loads is_json_ws_def example_timeseries_def)
  have payload: "map_of [(''payload'', JObj [(''propertyTimeSeries'', JArr (replicate 62 JNull))])]
                   ''payload'' = Some (JObj [(''propertyTimeSeries'', JArr (replicate 62 JNull))])"
    by simp
  have series: "map_of [(''propertyTimeSeries'', JArr (replicate 62 JNull))] ''propertyTimeSeries'' =
                  Some (JArr (replicate 62 JNull))"
    by simp
  have len: "61 < length (replicate 62 JNull)"
    by simp
  from timeseries_overflow [OF valid net ok decoded payload series len]
  show ?thesis .
qed

end
